theory Spec2Isabelle
  imports Main
begin

section \<open>Values and errors\<close>

text \<open>
  Identifiers of the voice platform (guilds, users, channels) are strings. A value that
  may be \<^verbatim>\<open>undefined\<close> or \<^verbatim>\<open>null\<close> is an \<open>option\<close>. A \<^verbatim>\<open>throw\<close>, and the rejection of an
  awaited promise, is the left summand of a result.
\<close>

type_synonym snowflake = string

datatype error =
    Error string        \<comment> \<open>\<^verbatim>\<open>throw new Error(msg)\<close>\<close>
  | TypeError string    \<comment> \<open>reading a property of \<^verbatim>\<open>undefined\<close> or \<^verbatim>\<open>null\<close>\<close>
  | Rejected string     \<comment> \<open>a provider's promise rejects\<close>

text \<open>JavaScript truthiness of a string that may be missing: \<^verbatim>\<open>!!s\<close>.\<close>

definition truthy :: "string option \<Rightarrow> bool" where
  "truthy v = (case v of None \<Rightarrow> False | Some s \<Rightarrow> s \<noteq> [])"

section \<open>Tracks, playlists and what the providers return\<close>

text \<open>
  The classes \<^verbatim>\<open>Track\<close> and \<^verbatim>\<open>Playlist\<close> are built by \<^verbatim>\<open>Player.search\<close> from an initialisation
  object; a track or a playlist here is that object, field by field. Field names carry a
  short prefix of their record (\<open>t_\<close> for a track, \<open>pl_\<close> for a playlist), since several
  records have a title, a url and so on.

  A provider's answer is typed by the way \<^verbatim>\<open>Player.search\<close> reads it: a field read through
  \<^verbatim>\<open>?.\<close> or \<^verbatim>\<open>??\<close> is optional, a field dereferenced without a guard is present.
\<close>

record yt_thumbnail =
  th_url :: string
  th_maxresdefault :: string  \<comment> \<open>what \<^verbatim>\<open>displayThumbnailURL("maxresdefault")\<close> returns\<close>

record yt_video =
  v_title :: string
  v_description :: string
  v_channel_name :: "string option"  \<comment> \<open>\<^verbatim>\<open>channel?.name\<close>\<close>
  v_url :: string
  v_thumbnail :: "yt_thumbnail option"
  v_views :: int
  v_duration :: int  \<comment> \<open>milliseconds\<close>
  v_durationFormatted :: string
  v_source :: "string option"

record ytpl_video =
  pv_title :: string
  pv_description :: string
  pv_channel_name :: "string option"
  pv_url :: string
  pv_thumbnail :: yt_thumbnail  \<comment> \<open>\<^verbatim>\<open>video.thumbnail.url\<close>, unguarded\<close>
  pv_views :: int
  pv_duration :: int
  pv_durationFormatted :: string

record yt_playlist =
  yp_title :: string
  yp_thumbnail :: string
  yp_channel_name :: string
  yp_channel_url :: string
  yp_id :: string
  yp_url :: string
  yp_videos :: "ytpl_video list"
  yp_fetch :: "error + ytpl_video list"
    \<comment> \<open>\<^verbatim>\<open>ytpl.fetch()\<close>: it rejects, or leaves the playlist with these videos\<close>

record sc_result =
  r_url :: string

record sc_song =
  s_title :: string
  s_url :: string
  s_duration :: int
  s_description :: string
  s_thumbnail :: string
  s_playCount :: int
  s_author_name :: string

record sc_playlist_song =
  ps_title :: string
  ps_description :: "string option"
  ps_author_username :: "string option"
  ps_author_name :: "string option"
  ps_url :: string
  ps_thumbnail :: string
  ps_duration :: int
  ps_playCount :: "int option"

record sc_playlist =
  sp_title :: string
  sp_description :: "string option"
  sp_thumbnail :: "string option"
  sp_author_name :: "string option"
  sp_author_username :: "string option"
  sp_author_profile :: "string option"
  sp_id :: string
  sp_url :: string
  sp_songs :: "sc_playlist_song list option"
    \<comment> \<open>what \<^verbatim>\<open>for (const song of data)\<close> iterates; \<open>None\<close>: the object is not iterable\<close>

record spotify_artist =
  ar_name :: "string option"
  ar_external_url :: "string option"  \<comment> \<open>\<^verbatim>\<open>external_urls?.spotify\<close>\<close>

record spotify_album =
  al_images :: "string option list"  \<comment> \<open>the \<^verbatim>\<open>url\<close> of each image\<close>

record spotify_item_track =
  it_name :: "string option"
  it_description :: "string option"
  it_artists :: "spotify_artist list"
  it_external_url :: "string option"
  it_album :: "spotify_album option"
  it_duration_ms :: int

record spotify_item =
  i_name :: "string option"
  i_description :: "string option"
  i_artists :: "spotify_artist list"
  i_external_url :: "string option"
  i_duration_ms :: int
  i_track :: spotify_item_track  \<comment> \<open>\<^verbatim>\<open>m.track\<close>, read for a playlist\<close>

record spotify_owner =
  ow_display_name :: "string option"
  ow_id :: "string option"
  ow_external_url :: "string option"

record spotify_data =
  d_name :: "string option"
  d_title :: "string option"
  d_description :: "string option"
  d_artists :: "spotify_artist list"
  d_external_url :: "string option"
  d_album :: "spotify_album option"
  d_preview_url :: "string option"
  d_duration_ms :: int
  d_images :: "string option list"
  d_type :: string
  d_owner :: "spotify_owner option"
  d_id :: string
  d_items :: "spotify_item list"  \<comment> \<open>\<^verbatim>\<open>tracks.items\<close>\<close>

text \<open>The data an extractor's metadata fetch returns (\<^verbatim>\<open>ExtractorModelData\<close>).\<close>

record playlist_author =
  pa_name :: "string option"
  pa_url :: "string option"

record ext_playlist =
  xp_title :: string
  xp_description :: string
  xp_thumbnail :: string
  xp_type :: string
  xp_source :: string
  xp_author :: playlist_author
  xp_id :: string
  xp_url :: string

record ext_item =
  x_title :: string
  x_duration :: int
  x_thumbnail :: string
  x_engine :: string
  x_views :: int
  x_author :: string
  x_description :: string
  x_url :: string
  x_source :: "string option"

record ExtractorModelData =
  xd_playlist :: "ext_playlist option"
  xd_data :: "ext_item list"

datatype payload =
    RawVideo yt_video
  | RawPlaylistVideo ytpl_video
  | EngineSong sc_song
  | EnginePlaylistSong sc_playlist_song
  | EngineExtractor string
  | RawYouTubePlaylist yt_playlist
  | RawSpotify spotify_data
  | RawSoundCloudPlaylist sc_playlist

text \<open>
  A playlist and its tracks point at each other. The back reference of a track is the
  playlist's head (everything but the tracks); the playlist of a result is the head with its
  tracks.
\<close>

record playlist_head =
  pl_title :: "string option"
  pl_description :: string
  pl_thumbnail :: "string option"
  pl_type :: string
  pl_source :: string
  pl_author :: playlist_author
  pl_id :: string
  pl_url :: string
  pl_rawPlaylist :: "payload option"

record track =
  t_title :: "string option"
  t_description :: string
  t_author :: "string option"
  t_url :: string
  t_thumbnail :: "string option"
  t_duration :: string
  t_views :: int
  t_requestedBy :: "snowflake option"
  t_playlist :: "playlist_head option"
  t_source :: "string option"
  t_raw :: "payload option"
  t_engine :: "payload option"

record playlist =
  p_head :: playlist_head
  p_tracks :: "track list"

record search_result =
  sr_playlist :: "playlist option"
  sr_tracks :: "track list"

section \<open>The extractor registry\<close>

text \<open>
  \<^verbatim>\<open>ExtractorModel\<close> is declared outside \<^verbatim>\<open>Player.ts\<close>; \<^verbatim>\<open>Player\<close> reads its name, calls
  \<^verbatim>\<open>validate(query)\<close> and awaits \<^verbatim>\<open>handle(query)\<close>, which resolves to data, resolves to nothing, or
  rejects.
\<close>

record ExtractorModel =
  name :: string
  validate :: "string \<Rightarrow> bool"
  handle :: "string \<Rightarrow> error + ExtractorModelData option"

text \<open>
  The second argument of \<^verbatim>\<open>use\<close>: an \<^verbatim>\<open>ExtractorModel\<close> instance, or any other object, whose
  \<^verbatim>\<open>validate\<close> and \<^verbatim>\<open>getInfo\<close> are functions or not, or no object at all.
\<close>

record raw_extractor =
  raw_validate :: "(string \<Rightarrow> bool) option"
  raw_getInfo :: "(string \<Rightarrow> error + ExtractorModelData option) option"

datatype extractor_arg =
    Instance ExtractorModel
  | Object raw_extractor
  | Undefined

text \<open>
  Modelled from the spec: the constructor of \<^verbatim>\<open>ExtractorModel\<close> is not in \<^verbatim>\<open>Player.ts\<close>. The
  spec gives a registered resolver a unique name, a capability check and a metadata-fetch
  operation; the model made from an object that passed the check of \<^verbatim>\<open>use\<close> has the object's
  two methods. (A method that is missing cannot be reached: \<^verbatim>\<open>use\<close> throws before.)
\<close>

definition new_ExtractorModel :: "string \<Rightarrow> raw_extractor \<Rightarrow> ExtractorModel" where
  "new_ExtractorModel extractorName extractor =
     \<lparr> name = extractorName,
       validate = (case raw_validate extractor of Some f \<Rightarrow> f | None \<Rightarrow> (\<lambda>_. False)),
       handle = (case raw_getInfo extractor of Some f \<Rightarrow> f | None \<Rightarrow> (\<lambda>_. Inr None)) \<rparr>"

text \<open>
  A \<^verbatim>\<open>Collection\<close> is a JavaScript \<^verbatim>\<open>Map\<close>: it iterates in insertion order, \<^verbatim>\<open>set\<close> on a key
  it has keeps the key's place, \<^verbatim>\<open>set\<close> on a new key appends.
\<close>

type_synonym ('k, 'v) collection = "('k \<times> 'v) list"

definition has :: "('k, 'v) collection \<Rightarrow> 'k \<Rightarrow> bool" where
  "has c k = (map_of c k \<noteq> None)"

definition get :: "('k, 'v) collection \<Rightarrow> 'k \<Rightarrow> 'v option" where
  "get c k = map_of c k"

fun set_entry :: "('k, 'v) collection \<Rightarrow> 'k \<Rightarrow> 'v \<Rightarrow> ('k, 'v) collection" where
  "set_entry [] k v = [(k, v)]"
| "set_entry ((k', v') # c) k v =
     (if k' = k then (k, v) # c else (k', v') # set_entry c k v)"

definition delete :: "('k, 'v) collection \<Rightarrow> 'k \<Rightarrow> ('k, 'v) collection" where
  "delete c k = filter (\<lambda>kv. fst kv \<noteq> k) c"

text \<open>\<^verbatim>\<open>Player.use\<close> (lines 416 to 432): the registry after the call and the model returned.\<close>

definition use ::
  "(string, ExtractorModel) collection \<Rightarrow> string \<Rightarrow> extractor_arg \<Rightarrow> bool \<Rightarrow>
     error + (ExtractorModel \<times> (string, ExtractorModel) collection)" where
  "use extractors extractorName extractor force =
     (if extractorName = [] then Inl (Error ''Cannot use unknown extractor!'')
      else case (if has extractors extractorName \<and> \<not> force
                 then get extractors extractorName else None) of
        Some existing \<Rightarrow> Inr (existing, extractors)
      | None \<Rightarrow>
         (case extractor of
            Instance m \<Rightarrow> Inr (m, set_entry extractors extractorName m)
          | Undefined \<Rightarrow> Inl (TypeError ''Cannot read properties of undefined'')
          | Object obj \<Rightarrow>
             (if raw_validate obj = None then Inl (Error ''Invalid extractor data!'')
              else if raw_getInfo obj = None then Inl (Error ''Invalid extractor data!'')
              else let model = new_ExtractorModel extractorName obj
                   in Inr (model, set_entry extractors (name model) model))))"

text \<open>\<^verbatim>\<open>Player.unuse\<close> (lines 439 to 444).\<close>

definition unuse ::
  "(string, ExtractorModel) collection \<Rightarrow> string \<Rightarrow>
     error + (ExtractorModel \<times> (string, ExtractorModel) collection)" where
  "unuse extractors extractorName =
     (case get extractors extractorName of
        None \<Rightarrow> Inl (Error (''Cannot find extractor \"'' @ extractorName @ ''\"''))
      | Some prev \<Rightarrow> Inr (prev, delete extractors extractorName))"

text \<open>
  The registries a player can hold: empty at construction, then changed by \<^verbatim>\<open>use\<close> and
  \<^verbatim>\<open>unuse\<close> only (the constructor's automatic registration goes through \<^verbatim>\<open>use\<close> too).
\<close>

inductive registry :: "(string, ExtractorModel) collection \<Rightarrow> bool" where
  registry_empty: "registry []"
| registry_use: "registry c \<Longrightarrow> use c n e f = Inr (m, c') \<Longrightarrow> registry c'"
| registry_unuse: "registry c \<Longrightarrow> unuse c n = Inr (m, c') \<Longrightarrow> registry c'"

section \<open>Sessions, timers and the player's state\<close>

text \<open>
  \<^verbatim>\<open>PlayerOptions\<close> with the fields \<^verbatim>\<open>Player.ts\<close> reads; every one is optional. The argument of
  \<^verbatim>\<open>createQueue\<close> has the session's metadata besides.
\<close>

type_synonym ytdl = "(string \<times> string) list"

record PlayerOptions =
  leaveOnEmpty :: "bool option"
  leaveOnEmptyCooldown :: "nat option"
  ytdlOptions :: "ytdl option"

record queueInitOptions = PlayerOptions +
  metadata :: "string option"

record connection =
  channel :: "snowflake option"

text \<open>
  A session (\<^verbatim>\<open>Queue\<close>) is an object: the registry, a timer's callback and the caller of
  \<^verbatim>\<open>createQueue\<close> hold the same one, and see each other's changes. Sessions live in a heap,
  and a reference is a heap address.
\<close>

record Queue =
  guild :: snowflake
  options :: PlayerOptions
  connection :: "connection option"
  cooldownsTimeout :: "string \<Rightarrow> nat option"
  queue_metadata :: "string option"
  destroyed :: bool

text \<open>
  A pending timer: the handle \<^verbatim>\<open>setTimeout\<close> returned, the delay asked for, and the session
  its callback closed over (every timer of \<^verbatim>\<open>Player.ts\<close> runs the same callback, lines 87 to 92).
\<close>

record timer =
  timer_handle :: nat
  delay :: nat
  captured_queue :: nat

datatype event = BotDisconnect nat | ChannelEmpty nat

text \<open>
  The player with the part of the runtime it acts on: the client's caches
  (\<^verbatim>\<open>client.user.id\<close>, \<^verbatim>\<open>client.guilds.resolve\<close>, \<^verbatim>\<open>client.users.resolve\<close>), the process-wide
  \<^verbatim>\<open>options.ytdlOptions\<close>, the two collections, the heap of sessions, the timers that are
  pending, and the events emitted so far.
\<close>

record player =
  client_user_id :: snowflake
  guilds_resolve :: "string \<Rightarrow> snowflake option"
  users_resolve :: "string \<Rightarrow> snowflake option"
  default_ytdlOptions :: "ytdl option"
  queues :: "snowflake \<Rightarrow> nat option"
  extractors :: "(string, ExtractorModel) collection"
  heap :: "nat \<Rightarrow> Queue"
  next_ref :: nat
  timers :: "timer list"
  next_timer :: nat
  emitted :: "event list"

text \<open>
  Modelled from the spec: the class \<^verbatim>\<open>Queue\<close> is not in \<^verbatim>\<open>Player.ts\<close>. A new session takes the
  supplied configuration, and has no connection and no timer yet. Its teardown
  (\<^verbatim>\<open>queue.destroy()\<close>) marks the session destroyed and takes its guild out of the registry: the
  spec has the session "torn down and removed from the registry" by an expiry that calls
  nothing but \<^verbatim>\<open>destroy\<close>.
\<close>

definition new_Queue :: "snowflake \<Rightarrow> PlayerOptions \<Rightarrow> Queue" where
  "new_Queue g opts =
     \<lparr> guild = g, options = opts, connection = None, cooldownsTimeout = (\<lambda>_. None),
       queue_metadata = None, destroyed = False \<rparr>"

definition Queue_destroy :: "nat \<Rightarrow> player \<Rightarrow> player" where
  "Queue_destroy queue p =
     p\<lparr> heap := (heap p)(queue := (heap p queue)\<lparr>destroyed := True\<rparr>),
        queues := (queues p)(guild (heap p queue) := None) \<rparr>"

definition emit :: "event \<Rightarrow> player \<Rightarrow> player" where
  "emit e p = p\<lparr>emitted := emitted p @ [e]\<rparr>"

text \<open>\<^verbatim>\<open>setTimeout\<close> and \<^verbatim>\<open>clearTimeout\<close> of the runtime.\<close>

definition setTimeout :: "nat \<Rightarrow> nat \<Rightarrow> player \<Rightarrow> nat \<times> player" where
  "setTimeout queue ms p =
     (next_timer p,
      p\<lparr> timers := timers p @ [\<lparr>timer_handle = next_timer p, delay = ms, captured_queue = queue\<rparr>],
         next_timer := Suc (next_timer p) \<rparr>)"

definition clearTimeout :: "nat \<Rightarrow> player \<Rightarrow> player" where
  "clearTimeout h p = p\<lparr>timers := filter (\<lambda>t. timer_handle t \<noteq> h) (timers p)\<rparr>"

subsection \<open>The session registry\<close>

text \<open>\<^verbatim>\<open>Player.getQueue\<close> (lines 123 to 127).\<close>

definition getQueue :: "player \<Rightarrow> string \<Rightarrow> error + nat option" where
  "getQueue p g =
     (case guilds_resolve p g of
        None \<Rightarrow> Inl (Error ''Unknown Guild'')
      | Some gid \<Rightarrow> Inr (queues p gid))"

text \<open>
  \<^verbatim>\<open>Player.createQueue\<close> (lines 103 to 116). The options may be left out
  (\<^verbatim>\<open>queueInitOptions?\<close>), which is \<open>None\<close>.
\<close>

definition createQueue :: "player \<Rightarrow> string \<Rightarrow> queueInitOptions option \<Rightarrow> error + (nat \<times> player)" where
  "createQueue p g queueInitOptions =
     (case guilds_resolve p g of
        None \<Rightarrow> Inl (Error ''Unknown Guild'')
      | Some gid \<Rightarrow>
         (case queues p gid of
            Some existing \<Rightarrow> Inr (existing, p)
          | None \<Rightarrow>
             (case queueInitOptions of
                None \<Rightarrow> Inl (TypeError ''Cannot read properties of undefined (reading metadata)'')
              | Some init \<Rightarrow>
                 (let meta = metadata init;
                      opts = PlayerOptions.truncate init;
                      opts = (case ytdlOptions opts of
                                None \<Rightarrow> opts\<lparr>ytdlOptions := default_ytdlOptions p\<rparr>
                              | Some _ \<Rightarrow> opts);
                      queue = (new_Queue gid opts)\<lparr>queue_metadata := meta\<rparr>;
                      r = next_ref p
                  in Inr (r, p\<lparr> heap := (heap p)(r := queue),
                                next_ref := Suc r,
                                queues := (queues p)(gid \<mapsto> r) \<rparr>)))))"


subsection \<open>The voice-state reactor\<close>

record VoiceState =
  vs_guild_id :: snowflake
  vs_member_id :: snowflake
  vs_channelID :: "snowflake option"

text \<open>
  \<^verbatim>\<open>Util.isVoiceEmpty\<close> is not in \<^verbatim>\<open>Player.ts\<close> and depends on who sits in the channel at that
  moment, so every event comes with its answer for each channel: a boolean, or a throw (what
  a missing channel may cause).
\<close>

type_synonym voice_oracle = "snowflake option \<Rightarrow> error + bool"

text \<open>Lines 78 to 84: someone joined, or the member is still in a channel.\<close>

definition member_present :: "voice_oracle \<Rightarrow> player \<Rightarrow> nat \<Rightarrow> snowflake \<Rightarrow> snowflake \<Rightarrow> error + player" where
  "member_present isVoiceEmpty p queue gid ch =
     (let emptyTimeout = cooldownsTimeout (heap p queue) (''empty_'' @ gid)
      in case isVoiceEmpty (Some ch) of
           Inl e \<Rightarrow> Inl e
         | Inr channelEmpty \<Rightarrow>
            (if channelEmpty then Inr p
             else case emptyTimeout of
                    None \<Rightarrow> Inr p
                  | Some h \<Rightarrow>
                     (let p1 = clearTimeout h p;
                          q = heap p1 queue
                      in Inr (p1\<lparr>heap := (heap p1)
                                (queue := q\<lparr>cooldownsTimeout :=
                                   (cooldownsTimeout q)(''empty_'' @ gid := None)\<rparr>)\<rparr>))))"

text \<open>Lines 86 to 93: the member left its channel.\<close>

definition member_left :: "voice_oracle \<Rightarrow> player \<Rightarrow> nat \<Rightarrow> snowflake \<Rightarrow> snowflake \<Rightarrow> error + player" where
  "member_left isVoiceEmpty p queue gid ch =
     (case isVoiceEmpty (Some ch) of
        Inl e \<Rightarrow> Inl e
      | Inr channelEmpty \<Rightarrow>
         (if \<not> channelEmpty then Inr p
          else let ms = (case leaveOnEmptyCooldown (options (heap p queue)) of
                           None \<Rightarrow> 0 | Some n \<Rightarrow> n);
                   (timeout, p1) = setTimeout queue ms p;
                   q = heap p1 queue
               in Inr (p1\<lparr>heap := (heap p1)
                         (queue := q\<lparr>cooldownsTimeout :=
                            (cooldownsTimeout q)(''empty_'' @ gid \<mapsto> timeout)\<rparr>)\<rparr>)))"

text \<open>\<^verbatim>\<open>Player._handleVoiceState\<close> (lines 66 to 95).\<close>

definition handleVoiceState :: "voice_oracle \<Rightarrow> player \<Rightarrow> VoiceState \<Rightarrow> VoiceState \<Rightarrow> error + player" where
  "handleVoiceState isVoiceEmpty p oldState newState =
     (case getQueue p (vs_guild_id oldState) of
        Inl e \<Rightarrow> Inl e
      | Inr None \<Rightarrow> Inr p
      | Inr (Some queue) \<Rightarrow>
         (if vs_member_id oldState = client_user_id p \<and> \<not> truthy (vs_channelID newState)
          then Inr (emit (BotDisconnect queue) (Queue_destroy queue p))
          else if leaveOnEmpty (options (heap p queue)) \<noteq> Some True then Inr p
          else case connection (heap p queue) of
                 None \<Rightarrow> Inr p
               | Some conn \<Rightarrow>
                  (case channel conn of
                     None \<Rightarrow> Inr p
                   | Some ch \<Rightarrow>
                      (if \<not> truthy (vs_channelID oldState)
                       then member_present isVoiceEmpty p queue (vs_guild_id oldState) ch
                       else if truthy (vs_channelID newState)
                       then member_present isVoiceEmpty p queue (vs_guild_id oldState) ch
                       else member_left isVoiceEmpty p queue (vs_guild_id oldState) ch))))"



text \<open>A run of voice-state events, each with the occupancy at its moment.\<close>

fun handle_events :: "player \<Rightarrow> (voice_oracle \<times> VoiceState \<times> VoiceState) list \<Rightarrow> error + player" where
  "handle_events p [] = Inr p"
| "handle_events p ((occ, oldState, newState) # evs) =
     (case handleVoiceState occ p oldState newState of
        Inl e \<Rightarrow> Inl e
      | Inr p1 \<Rightarrow> handle_events p1 evs)"

section \<open>The resolution pipeline\<close>

text \<open>
  \<^verbatim>\<open>QueryType\<close> is declared outside \<^verbatim>\<open>Player.ts\<close>: the members \<^verbatim>\<open>Player.search\<close> names, and
  \<open>OTHER\<close> for any member it does not name.
\<close>

datatype QueryType =
    AUTO
  | YOUTUBE_SEARCH
  | SOUNDCLOUD_TRACK
  | SOUNDCLOUD_SEARCH
  | SPOTIFY_SONG
  | SPOTIFY_PLAYLIST
  | SPOTIFY_ALBUM
  | SOUNDCLOUD_PLAYLIST
  | YOUTUBE_PLAYLIST
  | OTHER string

record TimeData =
  days :: int
  hours :: int
  minutes :: int
  seconds :: int

text \<open>
  What \<^verbatim>\<open>Player.search\<close> calls and does not define: the two functions of \<^verbatim>\<open>Util\<close> that format a
  duration, the classifier \<^verbatim>\<open>QueryResolver.resolve\<close>, and the fetches of the three providers.
  An awaited fetch resolves to a value, resolves to nothing, or rejects.

  The SoundCloud fetches of lines 213 and 218 are methods of the instance \<^verbatim>\<open>soundcloud\<close> of line
  17. Line 325 calls \<^verbatim>\<open>getPlaylist\<close> on the imported class \<^verbatim>\<open>SoundCloud\<close> itself: where the class has
  no static member of that name (\<open>None\<close>), the call throws a \<^verbatim>\<open>TypeError\<close> before there is a promise
  to catch.
\<close>

record providers =
  Util_parseMS :: "int \<Rightarrow> TimeData"
  Util_buildTimeCode :: "TimeData \<Rightarrow> string"
  QueryResolver_resolve :: "string \<Rightarrow> QueryType"
  YouTube_search :: "string \<Rightarrow> error + yt_video list option"
  YouTube_getPlaylist :: "string \<Rightarrow> error + yt_playlist option"
  soundcloud_search :: "string \<Rightarrow> error + sc_result list option"
  soundcloud_getSongInfo :: "string \<Rightarrow> error + sc_song option"
  Spotify_getData :: "string \<Rightarrow> error + spotify_data option"
  SoundCloud_getPlaylist :: "(string \<Rightarrow> error + sc_playlist option) option"

text \<open>The fetches a call of \<^verbatim>\<open>search\<close> performs, in order.\<close>

datatype call =
    Call_handle string string  \<comment> \<open>\<^verbatim>\<open>extractor.handle(query)\<close>, with the extractor's name\<close>
  | Call_YouTube_search string
  | Call_YouTube_getPlaylist string
  | Call_ytpl_fetch
  | Call_soundcloud_search string
  | Call_soundcloud_getSongInfo string
  | Call_Spotify_getData string
  | Call_SoundCloud_getPlaylist string

datatype query = QueryString string | QueryTrack track

record SearchOptions =
  requestedBy :: string
  searchEngine :: "QueryType option"  \<comment> \<open>\<open>None\<close>: the options have no \<^verbatim>\<open>searchEngine\<close>\<close>

text \<open>\<^verbatim>\<open>await fetch.catch(() => {})\<close>: a rejection becomes \<^verbatim>\<open>undefined\<close>.\<close>

definition caught :: "error + 'a option \<Rightarrow> 'a option" where
  "caught r = (case r of Inl e \<Rightarrow> None | Inr v \<Rightarrow> v)"

text \<open>\<^verbatim>\<open>v ?? d\<close>, and \<^verbatim>\<open>xs[0]?.f\<close> for an optional field \<open>f\<close>.\<close>

definition nullish :: "'a option \<Rightarrow> 'a \<Rightarrow> 'a" where
  "nullish v d = (case v of None \<Rightarrow> d | Some x \<Rightarrow> x)"

definition first_of :: "('a \<Rightarrow> 'b option) \<Rightarrow> 'a list \<Rightarrow> 'b option" where
  "first_of f xs = (case xs of [] \<Rightarrow> None | x # _ \<Rightarrow> f x)"

text \<open>\<^verbatim>\<open>s.split(sep)[1]\<close> for a separator that is not empty.\<close>

fun after_sep :: "string \<Rightarrow> string \<Rightarrow> string option" where
  "after_sep sep [] = None"
| "after_sep sep (c # cs) =
     (if take (length sep) (c # cs) = sep then Some (drop (length sep) (c # cs))
      else after_sep sep cs)"

fun before_sep :: "string \<Rightarrow> string \<Rightarrow> string" where
  "before_sep sep [] = []"
| "before_sep sep (c # cs) =
     (if take (length sep) (c # cs) = sep then [] else c # before_sep sep cs)"

definition split_second :: "string \<Rightarrow> string \<Rightarrow> string option" where
  "split_second sep s = map_option (before_sep sep) (after_sep sep s)"

definition empty_result :: search_result where
  "empty_result = \<lparr>sr_playlist = None, sr_tracks = []\<rparr>"

definition formatted :: "providers \<Rightarrow> int \<Rightarrow> string" where
  "formatted env ms = Util_buildTimeCode env (Util_parseMS env ms)"

text \<open>
  The kind \<^verbatim>\<open>search\<close> switches on: \<^verbatim>\<open>searchEngine\<close> is \<^verbatim>\<open>auto\<close> when the options have none (line
  157), and \<^verbatim>\<open>qt\<close> is the classifier's answer for \<^verbatim>\<open>auto\<close> and the caller's kind otherwise
  (line 186).
\<close>

definition effective_kind :: "providers \<Rightarrow> string \<Rightarrow> SearchOptions \<Rightarrow> QueryType" where
  "effective_kind env q opts =
     (if nullish (searchEngine opts) AUTO = AUTO then QueryResolver_resolve env q
      else nullish (searchEngine opts) AUTO)"

subsection \<open>Registered extractors (lines 159 to 184)\<close>

definition extractor_playlist :: "ext_playlist \<Rightarrow> playlist_head" where
  "extractor_playlist x =
     \<lparr> pl_title = Some (xp_title x), pl_description = xp_description x,
       pl_thumbnail = Some (xp_thumbnail x), pl_type = xp_type x, pl_source = xp_source x,
       pl_author = xp_author x, pl_id = xp_id x, pl_url = xp_url x, pl_rawPlaylist = None \<rparr>"

definition extractor_track ::
  "providers \<Rightarrow> snowflake option \<Rightarrow> playlist_head option \<Rightarrow> ext_item \<Rightarrow> track" where
  "extractor_track env user pl m =
     \<lparr> t_title = Some (x_title m), t_description = x_description m,
       t_author = Some (x_author m), t_url = x_url m, t_thumbnail = Some (x_thumbnail m),
       t_duration = formatted env (x_duration m),
       t_views = x_views m, t_requestedBy = user, t_playlist = pl, t_source = x_source m,
       t_raw = None, t_engine = Some (EngineExtractor (x_engine m)) \<rparr>"

definition extractor_result ::
  "providers \<Rightarrow> snowflake option \<Rightarrow> ExtractorModelData \<Rightarrow> search_result" where
  "extractor_result env user data =
     (let pl = map_option extractor_playlist (xd_playlist data);
          tracks = map (extractor_track env user pl) (xd_data data)
      in \<lparr> sr_playlist = map_option (\<lambda>h. \<lparr>p_head = h, p_tracks = tracks\<rparr>) pl,
           sr_tracks = tracks \<rparr>)"

text \<open>
  The loop over the registry. \<open>Inr None\<close>: the loop ended without a \<^verbatim>\<open>return\<close>. A rejection of
  \<^verbatim>\<open>handle\<close> is not caught and ends the search.
\<close>

fun try_extractors ::
  "providers \<Rightarrow> snowflake option \<Rightarrow> string \<Rightarrow> ExtractorModel list \<Rightarrow>
     call list \<times> (error + search_result option)" where
  "try_extractors env user q [] = ([], Inr None)"
| "try_extractors env user q (extractor # rest) =
     (if \<not> validate extractor q then try_extractors env user q rest
      else case handle extractor q of
             Inl e \<Rightarrow> ([Call_handle (name extractor) q], Inl e)
           | Inr None \<Rightarrow>
               (let (calls, r) = try_extractors env user q rest
                in (Call_handle (name extractor) q # calls, r))
           | Inr (Some data) \<Rightarrow>
               (if xd_data data = []
                then (let (calls, r) = try_extractors env user q rest
                      in (Call_handle (name extractor) q # calls, r))
                else ([Call_handle (name extractor) q],
                      Inr (Some (extractor_result env user data)))))"

subsection \<open>The built-in handlers (lines 187 to 407)\<close>

definition youtube_track :: "snowflake option \<Rightarrow> yt_video \<Rightarrow> track" where
  "youtube_track user m =
     \<lparr> t_title = Some (v_title m), t_description = v_description m,
       t_author = v_channel_name m, t_url = v_url m,
       t_thumbnail = map_option th_maxresdefault (v_thumbnail m),
       t_duration = v_durationFormatted m,
       t_views = v_views m, t_requestedBy = user, t_playlist = None, t_source = None,
       t_raw = Some (RawVideo (m\<lparr>v_source := Some ''youtube''\<rparr>)), t_engine = None \<rparr>"

definition youtube_search :: "providers \<Rightarrow> snowflake option \<Rightarrow> string \<Rightarrow> call list \<times> search_result" where
  "youtube_search env user q =
     ([Call_YouTube_search q],
      case caught (YouTube_search env q) of
        None \<Rightarrow> empty_result
      | Some videos \<Rightarrow> \<lparr>sr_playlist = None, sr_tracks = map (youtube_track user) videos\<rparr>)"

definition soundcloud_track :: "providers \<Rightarrow> snowflake option \<Rightarrow> sc_song \<Rightarrow> track" where
  "soundcloud_track env user trackInfo =
     \<lparr> t_title = Some (s_title trackInfo), t_description = s_description trackInfo,
       t_author = Some (s_author_name trackInfo), t_url = s_url trackInfo,
       t_thumbnail = Some (s_thumbnail trackInfo),
       t_duration = formatted env (s_duration trackInfo),
       t_views = s_playCount trackInfo, t_requestedBy = user, t_playlist = None,
       t_source = Some ''soundcloud'', t_raw = None, t_engine = Some (EngineSong trackInfo) \<rparr>"

text \<open>The loop of lines 217 to 235: one fetch per result; a result whose fetch fails is skipped.\<close>

fun soundcloud_songs ::
  "providers \<Rightarrow> snowflake option \<Rightarrow> sc_result list \<Rightarrow> call list \<times> track list" where
  "soundcloud_songs env user [] = ([], [])"
| "soundcloud_songs env user (r # rs) =
     (let (calls, res) = soundcloud_songs env user rs
      in case caught (soundcloud_getSongInfo env (r_url r)) of
           None \<Rightarrow> (Call_soundcloud_getSongInfo (r_url r) # calls, res)
         | Some trackInfo \<Rightarrow>
             (Call_soundcloud_getSongInfo (r_url r) # calls,
              soundcloud_track env user trackInfo # res))"

definition soundcloud_track_or_search ::
  "providers \<Rightarrow> snowflake option \<Rightarrow> string \<Rightarrow> call list \<times> search_result" where
  "soundcloud_track_or_search env user q =
     (let (calls, result) =
            (if QueryResolver_resolve env q = SOUNDCLOUD_TRACK then ([], Some [\<lparr>r_url = q\<rparr>])
             else ([Call_soundcloud_search q], caught (soundcloud_search env q)))
      in case result of
           None \<Rightarrow> (calls, empty_result)
         | Some [] \<Rightarrow> (calls, empty_result)
         | Some (r # rs) \<Rightarrow>
             (let (calls2, res) = soundcloud_songs env user (r # rs)
              in (calls @ calls2, \<lparr>sr_playlist = None, sr_tracks = res\<rparr>)))"

text \<open>
  Line 248 parses as \<^verbatim>\<open>(a ?? b) ? c : d\<close>: the image of the album, or else the length of the
  preview's url, decides between the two literals.
\<close>

definition spotify_song_thumbnail :: "spotify_data \<Rightarrow> string" where
  "spotify_song_thumbnail d =
     (let cond = (case (case d_album d of None \<Rightarrow> None
                                 | Some al \<Rightarrow> first_of (\<lambda>u. u) (al_images al)) of
                    Some u \<Rightarrow> u \<noteq> []
                  | None \<Rightarrow> (case d_preview_url d of None \<Rightarrow> False | Some pu \<Rightarrow> pu \<noteq> []))
      in if cond
         then ''https://i.scdn.co/image/'' @
              nullish (case d_preview_url d of None \<Rightarrow> None
                       | Some pu \<Rightarrow> split_second ''?cid='' pu) ''undefined''
         else ''https://www.scdn.co/i/_global/twitter_card-default.jpg'')"

definition spotify_song :: "providers \<Rightarrow> snowflake option \<Rightarrow> string \<Rightarrow> call list \<times> search_result" where
  "spotify_song env user q =
     ([Call_Spotify_getData q],
      case caught (Spotify_getData env q) of
        None \<Rightarrow> empty_result
      | Some spotifyData \<Rightarrow>
         \<lparr> sr_playlist = None,
           sr_tracks =
             [\<lparr> t_title = d_name spotifyData,
                t_description = nullish (d_description spotifyData) '''',
                t_author = Some (nullish (first_of ar_name (d_artists spotifyData)) ''Unknown Artist''),
                t_url = nullish (d_external_url spotifyData) q,
                t_thumbnail = Some (spotify_song_thumbnail spotifyData),
                t_duration = formatted env (d_duration_ms spotifyData),
                t_views = 0, t_requestedBy = user, t_playlist = None,
                t_source = Some ''spotify'', t_raw = None, t_engine = None \<rparr>] \<rparr>)"

definition spotify_head :: "string \<Rightarrow> spotify_data \<Rightarrow> playlist_head" where
  "spotify_head q d =
     \<lparr> pl_title = (case d_name d of None \<Rightarrow> d_title d | Some n \<Rightarrow> Some n),
       pl_description = nullish (d_description d) '''',
       pl_thumbnail = Some (nullish (first_of (\<lambda>u. u) (d_images d))
                              ''https://www.scdn.co/i/_global/twitter_card-default.jpg''),
       pl_type = d_type d,
       pl_source = ''spotify'',
       pl_author =
         (if d_type d \<noteq> ''playlist''
          then \<lparr> pa_name = Some (nullish (first_of ar_name (d_artists d)) ''Unknown Artist''),
                 pa_url = first_of ar_external_url (d_artists d) \<rparr>
          else \<lparr> pa_name = Some (nullish
                   (case d_owner d of None \<Rightarrow> None
                    | Some ow \<Rightarrow> (case ow_display_name ow of None \<Rightarrow> ow_id ow | Some n \<Rightarrow> Some n))
                   ''Unknown Artist''),
                 pa_url = (case d_owner d of None \<Rightarrow> None | Some ow \<Rightarrow> ow_external_url ow) \<rparr>),
       pl_id = d_id d,
       pl_url = nullish (d_external_url d) q,
       pl_rawPlaylist = Some (RawSpotify d) \<rparr>"

definition spotify_album_track ::
  "providers \<Rightarrow> snowflake option \<Rightarrow> string \<Rightarrow> spotify_data \<Rightarrow> playlist_head \<Rightarrow> spotify_item \<Rightarrow> track" where
  "spotify_album_track env user q d pl m =
     \<lparr> t_title = Some (nullish (i_name m) ''''),
       t_description = nullish (i_description m) '''',
       t_author = Some (nullish (first_of ar_name (i_artists m)) ''Unknown Artist''),
       t_url = nullish (i_external_url m) q,
       t_thumbnail = Some (nullish (first_of (\<lambda>u. u) (d_images d))
                             ''https://www.scdn.co/i/_global/twitter_card-default.jpg''),
       t_duration = formatted env (i_duration_ms m),
       t_views = 0, t_requestedBy = user, t_playlist = Some pl,
       t_source = Some ''spotify'', t_raw = None, t_engine = None \<rparr>"

definition spotify_playlist_track ::
  "providers \<Rightarrow> snowflake option \<Rightarrow> string \<Rightarrow> playlist_head \<Rightarrow> spotify_item \<Rightarrow> track" where
  "spotify_playlist_track env user q pl m =
     \<lparr> t_title = Some (nullish (it_name (i_track m)) ''''),
       t_description = nullish (it_description (i_track m)) '''',
       t_author = Some (nullish (first_of ar_name (it_artists (i_track m))) ''Unknown Artist''),
       t_url = nullish (it_external_url (i_track m)) q,
       t_thumbnail = Some (nullish (case it_album (i_track m) of None \<Rightarrow> None
                                    | Some al \<Rightarrow> first_of (\<lambda>u. u) (al_images al))
                             ''https://www.scdn.co/i/_global/twitter_card-default.jpg''),
       t_duration = formatted env (it_duration_ms (i_track m)),
       t_views = 0, t_requestedBy = user, t_playlist = Some pl,
       t_source = Some ''spotify'', t_raw = None, t_engine = None \<rparr>"

definition spotify_collection :: "providers \<Rightarrow> snowflake option \<Rightarrow> string \<Rightarrow> call list \<times> search_result" where
  "spotify_collection env user q =
     ([Call_Spotify_getData q],
      case caught (Spotify_getData env q) of
        None \<Rightarrow> empty_result
      | Some spotifyPlaylist \<Rightarrow>
         (let pl = spotify_head q spotifyPlaylist;
              tracks = (if d_type spotifyPlaylist \<noteq> ''playlist''
                        then map (spotify_album_track env user q spotifyPlaylist pl)
                               (d_items spotifyPlaylist)
                        else map (spotify_playlist_track env user q pl)
                               (d_items spotifyPlaylist))
          in \<lparr>sr_playlist = Some \<lparr>p_head = pl, p_tracks = tracks\<rparr>, sr_tracks = tracks\<rparr>))"

definition soundcloud_head :: "sc_playlist \<Rightarrow> playlist_head" where
  "soundcloud_head data =
     \<lparr> pl_title = Some (sp_title data),
       pl_description = nullish (sp_description data) '''',
       pl_thumbnail = Some (nullish (sp_thumbnail data) ''https://soundcloud.com/pwa-icon-192.png''),
       pl_type = ''playlist'',
       pl_source = ''soundcloud'',
       pl_author =
         \<lparr> pa_name = Some (nullish (case sp_author_name data of
                                      None \<Rightarrow> sp_author_username data | Some n \<Rightarrow> Some n)
                             ''Unknown Artist''),
           pa_url = sp_author_profile data \<rparr>,
       pl_id = sp_id data,
       pl_url = sp_url data,
       pl_rawPlaylist = Some (RawSoundCloudPlaylist data) \<rparr>"

definition soundcloud_playlist_track ::
  "providers \<Rightarrow> snowflake option \<Rightarrow> playlist_head \<Rightarrow> sc_playlist_song \<Rightarrow> track" where
  "soundcloud_playlist_track env user pl song =
     \<lparr> t_title = Some (ps_title song),
       t_description = nullish (ps_description song) '''',
       t_author = Some (nullish (case ps_author_username song of
                                   None \<Rightarrow> ps_author_name song | Some n \<Rightarrow> Some n)
                          ''Unknown Artist''),
       t_url = ps_url song,
       t_thumbnail = Some (ps_thumbnail song),
       t_duration = formatted env (ps_duration song),
       t_views = nullish (ps_playCount song) 0,
       t_requestedBy = user, t_playlist = Some pl,
       t_source = Some ''soundcloud'', t_raw = None, t_engine = Some (EnginePlaylistSong song) \<rparr>"

text \<open>
  Lines 324 to 362. Two statements of this handler can throw outside any \<^verbatim>\<open>catch\<close>: the call of
  line 325 when the class has no static \<^verbatim>\<open>getPlaylist\<close>, and the loop of line 344 when the
  playlist it got is not iterable. Either error is the caller's.
\<close>

definition soundcloud_playlist ::
  "providers \<Rightarrow> snowflake option \<Rightarrow> string \<Rightarrow> call list \<times> (error + search_result)" where
  "soundcloud_playlist env user q =
     (case SoundCloud_getPlaylist env of
        None \<Rightarrow> ([], Inl (TypeError ''SoundCloud.getPlaylist is not a function''))
      | Some getPlaylist \<Rightarrow>
         ([Call_SoundCloud_getPlaylist q],
          case caught (getPlaylist q) of
            None \<Rightarrow> Inr empty_result
          | Some data \<Rightarrow>
             (let res = soundcloud_head data
              in case sp_songs data of
                   None \<Rightarrow> Inl (TypeError ''data is not iterable'')
                 | Some songs \<Rightarrow>
                     (let tracks = map (soundcloud_playlist_track env user res) songs
                      in Inr \<lparr>sr_playlist = Some \<lparr>p_head = res, p_tracks = tracks\<rparr>,
                              sr_tracks = tracks\<rparr>))))"

definition youtube_playlist_track :: "snowflake option \<Rightarrow> playlist_head \<Rightarrow> ytpl_video \<Rightarrow> track" where
  "youtube_playlist_track user pl video =
     \<lparr> t_title = Some (pv_title video), t_description = pv_description video,
       t_author = pv_channel_name video, t_url = pv_url video,
       t_thumbnail = Some (th_url (pv_thumbnail video)),
       t_duration = pv_durationFormatted video,
       t_views = pv_views video, t_requestedBy = user, t_playlist = Some pl,
       t_source = Some ''youtube'', t_raw = Some (RawPlaylistVideo video), t_engine = None \<rparr>"

definition youtube_head :: "yt_playlist \<Rightarrow> playlist_head" where
  "youtube_head ytpl =
     \<lparr> pl_title = Some (yp_title ytpl), pl_description = '''',
       pl_thumbnail = Some (yp_thumbnail ytpl), pl_type = ''playlist'',
       pl_source = ''youtube'',
       pl_author = \<lparr> pa_name = Some (yp_channel_name ytpl),
                     pa_url = Some (yp_channel_url ytpl) \<rparr>,
       pl_id = yp_id ytpl, pl_url = yp_url ytpl,
       pl_rawPlaylist = Some (RawYouTubePlaylist ytpl) \<rparr>"

definition youtube_playlist :: "providers \<Rightarrow> snowflake option \<Rightarrow> string \<Rightarrow> call list \<times> search_result" where
  "youtube_playlist env user q =
     (case caught (YouTube_getPlaylist env q) of
        None \<Rightarrow> ([Call_YouTube_getPlaylist q], empty_result)
      | Some ytpl0 \<Rightarrow>
         (let ytpl = (case yp_fetch ytpl0 of
                        Inl e \<Rightarrow> ytpl0
                      | Inr videos \<Rightarrow> ytpl0\<lparr>yp_videos := videos\<rparr>);
              pl = youtube_head ytpl;
              tracks = map (youtube_playlist_track user pl) (yp_videos ytpl)
          in ([Call_YouTube_getPlaylist q, Call_ytpl_fetch],
              \<lparr>sr_playlist = Some \<lparr>p_head = pl, p_tracks = tracks\<rparr>, sr_tracks = tracks\<rparr>)))"

text \<open>
  The \<^verbatim>\<open>switch\<close> of line 187. A handler that reaches its \<^verbatim>\<open>return\<close> resolves the promise of
  \<^verbatim>\<open>search\<close>; a throw in a handler rejects it.
\<close>

definition returned :: "call list \<times> search_result \<Rightarrow> call list \<times> (error + search_result)" where
  "returned cr = (fst cr, Inr (snd cr))"

fun dispatch ::
  "providers \<Rightarrow> snowflake option \<Rightarrow> QueryType \<Rightarrow> string \<Rightarrow>
     call list \<times> (error + search_result)" where
  "dispatch env user YOUTUBE_SEARCH q = returned (youtube_search env user q)"
| "dispatch env user SOUNDCLOUD_TRACK q = returned (soundcloud_track_or_search env user q)"
| "dispatch env user SOUNDCLOUD_SEARCH q = returned (soundcloud_track_or_search env user q)"
| "dispatch env user SPOTIFY_SONG q = returned (spotify_song env user q)"
| "dispatch env user SPOTIFY_PLAYLIST q = returned (spotify_collection env user q)"
| "dispatch env user SPOTIFY_ALBUM q = returned (spotify_collection env user q)"
| "dispatch env user SOUNDCLOUD_PLAYLIST q = soundcloud_playlist env user q"
| "dispatch env user YOUTUBE_PLAYLIST q = returned (youtube_playlist env user q)"
| "dispatch env user AUTO q = ([], Inr empty_result)"
| "dispatch env user (OTHER k) q = ([], Inr empty_result)"

text \<open>
  \<^verbatim>\<open>Player.search\<close> (lines 153 to 408): the fetches performed, and the result or the error
  the caller gets.
\<close>

definition search ::
  "providers \<Rightarrow> player \<Rightarrow> query \<Rightarrow> SearchOptions option \<Rightarrow> call list \<times> (error + search_result)" where
  "search env p query searchOptions =
     (case query of
        QueryTrack t \<Rightarrow> ([], Inr \<lparr>sr_playlist = None, sr_tracks = [t]\<rparr>)
      | QueryString q \<Rightarrow>
         (case searchOptions of
            None \<Rightarrow> ([], Inl (Error ''DiscordPlayer#search needs search options!''))
          | Some opts \<Rightarrow>
             (let user = users_resolve p (requestedBy opts)
              in case try_extractors env user q (map snd (extractors p)) of
                   (calls, Inl e) \<Rightarrow> (calls, Inl e)
                 | (calls, Inr (Some r)) \<Rightarrow> (calls, Inr r)
                 | (calls, Inr None) \<Rightarrow>
                     (let qt = effective_kind env q opts;
                          (calls2, r) = dispatch env user qt q
                      in (calls @ calls2, r)))))"

section \<open>Predicates of the specification\<close>


text \<open>
  The two tests of the callback ran and one of them failed; the callback threw before it could
  decide (no connection, or \<^verbatim>\<open>Util.isVoiceEmpty\<close> throws).
\<close>

definition recheck_fails :: "voice_oracle \<Rightarrow> player \<Rightarrow> nat \<Rightarrow> bool" where
  "recheck_fails isVoiceEmpty p r =
     (case connection (heap p r) of
        None \<Rightarrow> False
      | Some conn \<Rightarrow>
          (case isVoiceEmpty (channel conn) of
             Inl e \<Rightarrow> False
           | Inr channelEmpty \<Rightarrow>
               (if channelEmpty then queues p (guild (heap p r)) = None else True)))"



text \<open>The handles of the pending cooldown timers whose session belongs to guild \<open>g\<close>.\<close>

definition pending_cooldowns :: "player \<Rightarrow> snowflake \<Rightarrow> nat list" where
  "pending_cooldowns p g =
     map timer_handle (filter (\<lambda>t. guild (heap p (captured_queue t)) = g) (timers p))"

text \<open>
  An extractor yields for a query: it accepts the query and its fetch resolves to a list of
  results that is not empty. It rejects: it accepts the query and its fetch rejects.
\<close>

definition yields :: "ExtractorModel \<Rightarrow> string \<Rightarrow> bool" where
  "yields e q =
     (validate e q \<and>
      (case handle e q of Inl err \<Rightarrow> False | Inr None \<Rightarrow> False | Inr (Some d) \<Rightarrow> xd_data d \<noteq> []))"

definition rejects :: "ExtractorModel \<Rightarrow> string \<Rightarrow> bool" where
  "rejects e q = (validate e q \<and> (case handle e q of Inl err \<Rightarrow> True | Inr d \<Rightarrow> False))"

definition builtin_call :: "call \<Rightarrow> bool" where
  "builtin_call c = (case c of Call_handle n q \<Rightarrow> False | _ \<Rightarrow> True)"

text \<open>The duration strings of the tracks a search returned (none if it failed).\<close>

definition durations_of :: "call list \<times> (error + search_result) \<Rightarrow> string list" where
  "durations_of res = (case snd res of Inl e \<Rightarrow> [] | Inr r \<Rightarrow> map t_duration (sr_tracks r))"


text \<open>
  The provider fetches that belong to each kind, as the spec lists the handlers: a YouTube
  search; the SoundCloud song itself, or a SoundCloud search and then every song found; the
  Spotify item; the SoundCloud playlist (when the call can be made at all); the YouTube
  playlist and, once it is there, the rest of its videos; nothing for any other kind.
\<close>

definition fetches_of_kind :: "providers \<Rightarrow> QueryType \<Rightarrow> string \<Rightarrow> call list" where
  "fetches_of_kind env k q =
     (case k of
        YOUTUBE_SEARCH \<Rightarrow> [Call_YouTube_search q]
      | SOUNDCLOUD_TRACK \<Rightarrow>
          (if QueryResolver_resolve env q = SOUNDCLOUD_TRACK then [Call_soundcloud_getSongInfo q]
           else Call_soundcloud_search q #
                map (\<lambda>r. Call_soundcloud_getSongInfo (r_url r))
                  (nullish (caught (soundcloud_search env q)) []))
      | SOUNDCLOUD_SEARCH \<Rightarrow>
          (if QueryResolver_resolve env q = SOUNDCLOUD_TRACK then [Call_soundcloud_getSongInfo q]
           else Call_soundcloud_search q #
                map (\<lambda>r. Call_soundcloud_getSongInfo (r_url r))
                  (nullish (caught (soundcloud_search env q)) []))
      | SPOTIFY_SONG \<Rightarrow> [Call_Spotify_getData q]
      | SPOTIFY_PLAYLIST \<Rightarrow> [Call_Spotify_getData q]
      | SPOTIFY_ALBUM \<Rightarrow> [Call_Spotify_getData q]
      | SOUNDCLOUD_PLAYLIST \<Rightarrow>
          (case SoundCloud_getPlaylist env of
             None \<Rightarrow> [] | Some getPlaylist \<Rightarrow> [Call_SoundCloud_getPlaylist q])
      | YOUTUBE_PLAYLIST \<Rightarrow>
          (case caught (YouTube_getPlaylist env q) of
             None \<Rightarrow> [Call_YouTube_getPlaylist q]
           | Some ytpl \<Rightarrow> [Call_YouTube_getPlaylist q, Call_ytpl_fetch])
      | AUTO \<Rightarrow> []
      | OTHER other \<Rightarrow> [])"

text \<open>A fetch of one of the two YouTube handlers.\<close>

definition youtube_call :: "call \<Rightarrow> bool" where
  "youtube_call c =
     (case c of Call_YouTube_search q \<Rightarrow> True | Call_YouTube_getPlaylist q \<Rightarrow> True
      | Call_ytpl_fetch \<Rightarrow> True | _ \<Rightarrow> False)"

text \<open>
  The millisecond figures of the source items a search makes its tracks from, item by item:
  the results of the first extractor that yields (none if an extractor rejects before), or
  else the songs and items the provider of the effective kind returns. None of this
  mentions the formatter.
\<close>

fun extractor_ms :: "string \<Rightarrow> ExtractorModel list \<Rightarrow> int list option" where
  "extractor_ms q [] = None"
| "extractor_ms q (e # rest) =
     (if yields e q
      then (case handle e q of Inr (Some d) \<Rightarrow> Some (map x_duration (xd_data d)) | _ \<Rightarrow> None)
      else if rejects e q then Some []
      else extractor_ms q rest)"

definition soundcloud_ms :: "providers \<Rightarrow> string \<Rightarrow> int list" where
  "soundcloud_ms env q =
     map s_duration
       (List.map_filter (\<lambda>r. caught (soundcloud_getSongInfo env (r_url r)))
          (if QueryResolver_resolve env q = SOUNDCLOUD_TRACK then [\<lparr>r_url = q\<rparr>]
           else nullish (caught (soundcloud_search env q)) []))"

definition spotify_ms :: "providers \<Rightarrow> string \<Rightarrow> int list" where
  "spotify_ms env q =
     (case caught (Spotify_getData env q) of
        None \<Rightarrow> []
      | Some d \<Rightarrow>
          (if d_type d \<noteq> ''playlist'' then map i_duration_ms (d_items d)
           else map (\<lambda>m. it_duration_ms (i_track m)) (d_items d)))"

definition handler_ms :: "providers \<Rightarrow> QueryType \<Rightarrow> string \<Rightarrow> int list" where
  "handler_ms env qt q =
     (case qt of
        SOUNDCLOUD_TRACK \<Rightarrow> soundcloud_ms env q
      | SOUNDCLOUD_SEARCH \<Rightarrow> soundcloud_ms env q
      | SPOTIFY_SONG \<Rightarrow>
          (case caught (Spotify_getData env q) of None \<Rightarrow> [] | Some d \<Rightarrow> [d_duration_ms d])
      | SPOTIFY_PLAYLIST \<Rightarrow> spotify_ms env q
      | SPOTIFY_ALBUM \<Rightarrow> spotify_ms env q
      | SOUNDCLOUD_PLAYLIST \<Rightarrow>
          (case SoundCloud_getPlaylist env of
             None \<Rightarrow> []
           | Some getPlaylist \<Rightarrow>
               (case caught (getPlaylist q) of
                  None \<Rightarrow> []
                | Some data \<Rightarrow> map ps_duration (nullish (sp_songs data) [])))
      | _ \<Rightarrow> [])"

definition source_ms :: "providers \<Rightarrow> player \<Rightarrow> string \<Rightarrow> SearchOptions \<Rightarrow> int list" where
  "source_ms env p q opts =
     (case extractor_ms q (map snd (extractors p)) of
        Some mss \<Rightarrow> mss
      | None \<Rightarrow> handler_ms env (effective_kind env q opts) q)"

text \<open>The duration strings YouTube itself supplies with the videos of a search or a playlist.\<close>

definition provider_formatted :: "providers \<Rightarrow> QueryType \<Rightarrow> string \<Rightarrow> string list" where
  "provider_formatted env qt q =
     (case qt of
        YOUTUBE_SEARCH \<Rightarrow>
          (case caught (YouTube_search env q) of
             None \<Rightarrow> [] | Some videos \<Rightarrow> map v_durationFormatted videos)
      | YOUTUBE_PLAYLIST \<Rightarrow>
          (case caught (YouTube_getPlaylist env q) of
             None \<Rightarrow> []
           | Some ytpl \<Rightarrow>
               map pv_durationFormatted
                 (case yp_fetch ytpl of Inl e \<Rightarrow> yp_videos ytpl | Inr videos \<Rightarrow> videos))
      | _ \<Rightarrow> [])"

section \<open>A guild, its session and two resolvers\<close>

text \<open>
  Guild \<open>g1\<close> has an open session that leaves an empty channel after a minute; the bot sits
  in the channel \<open>lounge\<close>.
\<close>

definition lounge_queue :: Queue where
  "lounge_queue =
     \<lparr> guild = ''g1'',
       options = \<lparr>leaveOnEmpty = Some True, leaveOnEmptyCooldown = Some 60000, ytdlOptions = None\<rparr>,
       connection = Some \<lparr>channel = Some ''lounge''\<rparr>,
       cooldownsTimeout = (\<lambda>_. None), queue_metadata = None, destroyed = False \<rparr>"

definition lounge_player :: player where
  "lounge_player =
     \<lparr> client_user_id = ''bot'',
       guilds_resolve = (\<lambda>g. if g = ''g1'' then Some ''g1'' else None),
       users_resolve = (\<lambda>u. Some u),
       default_ytdlOptions = Some [],
       queues = [''g1'' \<mapsto> 0],
       extractors = [],
       heap = (\<lambda>_. lounge_queue),
       next_ref = 1, timers = [], next_timer = 0, emitted = [] \<rparr>"

text \<open>
  The same player before any session was opened, the options of a first and of a second call
  of \<^verbatim>\<open>createQueue\<close>, and the player after the first call.
\<close>

definition idle_player :: player where
  "idle_player = lounge_player\<lparr>queues := Map.empty, next_ref := 0\<rparr>"

definition first_options :: queueInitOptions where
  "first_options =
     \<lparr> leaveOnEmpty = Some True, leaveOnEmptyCooldown = Some 60000, ytdlOptions = None,
       metadata = Some ''first'' \<rparr>"

definition second_options :: queueInitOptions where
  "second_options =
     \<lparr> leaveOnEmpty = Some False, leaveOnEmptyCooldown = None,
       ytdlOptions = Some [(''quality'', ''lowest'')], metadata = Some ''second'' \<rparr>"

definition opened_player :: player where
  "opened_player =
     (case createQueue idle_player ''g1'' (Some first_options) of
        Inl e \<Rightarrow> idle_player
      | Inr (r, p) \<Rightarrow> p)"

definition nobody_there :: voice_oracle where
  "nobody_there c = (case c of None \<Rightarrow> Inl (TypeError ''no channel'') | Some _ \<Rightarrow> Inr True)"

definition somebody_there :: voice_oracle where
  "somebody_there c = (case c of None \<Rightarrow> Inl (TypeError ''no channel'') | Some _ \<Rightarrow> Inr False)"

definition in_channel :: "snowflake \<Rightarrow> snowflake \<Rightarrow> VoiceState" where
  "in_channel member ch = \<lparr>vs_guild_id = ''g1'', vs_member_id = member, vs_channelID = Some ch\<rparr>"

definition in_no_channel :: "snowflake \<Rightarrow> VoiceState" where
  "in_no_channel member = \<lparr>vs_guild_id = ''g1'', vs_member_id = member, vs_channelID = None\<rparr>"

text \<open>The player after the last listener, alice, left the lounge: a cooldown is pending.\<close>

definition lounge_waiting :: player where
  "lounge_waiting =
     (case handleVoiceState nobody_there lounge_player
             (in_channel ''alice'' ''lounge'') (in_no_channel ''alice'') of
        Inl e \<Rightarrow> lounge_player
      | Inr p \<Rightarrow> p)"


text \<open>
  Two resolvers for links of one video site. The first answers with one track, the second
  with nothing.
\<close>

definition clip :: "string \<Rightarrow> ext_item" where
  "clip q =
     \<lparr> x_title = ''clip'', x_duration = 65000, x_thumbnail = ''thumb'', x_engine = q,
       x_views = 7, x_author = ''someone'', x_description = '''', x_url = q,
       x_source = Some ''arbitrary'' \<rparr>"

definition clips_extractor :: ExtractorModel where
  "clips_extractor =
     \<lparr> name = ''Clips'',
       validate = (\<lambda>q. take 14 q = ''https://clips/''),
       handle = (\<lambda>q. Inr (Some \<lparr>xd_playlist = None, xd_data = [clip q]\<rparr>)) \<rparr>"

definition silent_extractor :: ExtractorModel where
  "silent_extractor =
     \<lparr> name = ''Silent'',
       validate = (\<lambda>q. take 14 q = ''https://clips/''),
       handle = (\<lambda>q. Inr None) \<rparr>"

section \<open>A formatter, a classifier and providers for the examples\<close>

text \<open>
  Modelled from the spec: \<^verbatim>\<open>Util.parseMS\<close> and \<^verbatim>\<open>Util.buildTimeCode\<close> are not in \<^verbatim>\<open>Player.ts\<close>, and
  the pipeline above takes them as parameters. The spec asks for one deterministic function from
  milliseconds to a time code \<^verbatim>\<open>mm:ss\<close> or \<^verbatim>\<open>h:mm:ss\<close> that maps 65000 to \<^verbatim>\<open>1:05\<close> and 3661000 to
  \<^verbatim>\<open>1:01:01\<close>. The two functions below are such a formatter; the examples run with them.
\<close>

fun decimal :: "nat \<Rightarrow> string" where
  "decimal n =
     (if n < 10 then [''0123456789'' ! n]
      else decimal (n div 10) @ [''0123456789'' ! (n mod 10)])"

declare decimal.simps [simp del]

definition two_digits :: "nat \<Rightarrow> string" where
  "two_digits n = (if n < 10 then ''0'' @ decimal n else decimal n)"

definition parseMS :: "int \<Rightarrow> TimeData" where
  "parseMS milliseconds =
     \<lparr> days = milliseconds div 86400000,
       hours = (milliseconds div 3600000) mod 24,
       minutes = (milliseconds div 60000) mod 60,
       seconds = (milliseconds div 1000) mod 60 \<rparr>"

definition buildTimeCode :: "TimeData \<Rightarrow> string" where
  "buildTimeCode t =
     (let h = nat (days t * 24 + hours t)
      in if 0 < h
         then decimal h @ '':'' @ two_digits (nat (minutes t)) @ '':'' @ two_digits (nat (seconds t))
         else decimal (nat (minutes t)) @ '':'' @ two_digits (nat (seconds t)))"

text \<open>
  A classifier for the examples: a link to SoundCloud is a SoundCloud track, any other text a
  YouTube search.
\<close>

definition link_classifier :: "string \<Rightarrow> QueryType" where
  "link_classifier q =
     (if take 23 q = ''https://soundcloud.com/'' then SOUNDCLOUD_TRACK else YOUTUBE_SEARCH)"

definition studio_video :: yt_video where
  "studio_video =
     \<lparr> v_title = ''lofi'', v_description = '''', v_channel_name = Some ''studio'',
       v_url = ''https://yt/v1'', v_thumbnail = None, v_views = 10,
       v_duration = 65000, v_durationFormatted = ''01:05'', v_source = None \<rparr>"

definition studio_playlist_video :: ytpl_video where
  "studio_playlist_video =
     \<lparr> pv_title = ''lofi'', pv_description = '''', pv_channel_name = Some ''studio'',
       pv_url = ''https://yt/v1'', pv_thumbnail = \<lparr>th_url = ''t'', th_maxresdefault = ''t''\<rparr>,
       pv_views = 10, pv_duration = 65000, pv_durationFormatted = ''01:05'' \<rparr>"

text \<open>A playlist whose first page has one video and whose next fetch rejects.\<close>

definition studio_ytpl :: yt_playlist where
  "studio_ytpl =
     \<lparr> yp_title = ''mix'', yp_thumbnail = ''t'', yp_channel_name = ''studio'',
       yp_channel_url = ''https://yt/c'', yp_id = ''PL1'', yp_url = ''https://yt/PL1'',
       yp_videos = [studio_playlist_video], yp_fetch = Inl (Rejected ''no more pages'') \<rparr>"

definition studio_song :: sc_song where
  "studio_song =
     \<lparr> s_title = ''two'', s_url = ''https://soundcloud.com/a/two'', s_duration = 3661000,
       s_description = '''', s_thumbnail = ''t'', s_playCount = 3, s_author_name = ''a'' \<rparr>"

text \<open>
  YouTube answers; a SoundCloud search finds two songs, of which the first cannot be fetched;
  Spotify rejects; the class \<^verbatim>\<open>SoundCloud\<close> has no static \<^verbatim>\<open>getPlaylist\<close>.
\<close>

definition studio :: providers where
  "studio =
     \<lparr> Util_parseMS = parseMS,
       Util_buildTimeCode = buildTimeCode,
       QueryResolver_resolve = link_classifier,
       YouTube_search = (\<lambda>q. Inr (Some [studio_video])),
       YouTube_getPlaylist = (\<lambda>q. Inr (Some studio_ytpl)),
       soundcloud_search =
         (\<lambda>q. Inr (Some [\<lparr>r_url = ''https://soundcloud.com/a/one''\<rparr>,
                          \<lparr>r_url = ''https://soundcloud.com/a/two''\<rparr>])),
       soundcloud_getSongInfo =
         (\<lambda>u. if u = ''https://soundcloud.com/a/two'' then Inr (Some studio_song)
              else Inl (Rejected ''not found'')),
       Spotify_getData = (\<lambda>q. Inl (Rejected ''blocked'')),
       SoundCloud_getPlaylist = None \<rparr>"

text \<open>A resolver whose fetch rejects, and players with two registered resolvers.\<close>

definition broken_extractor :: ExtractorModel where
  "broken_extractor =
     \<lparr> name = ''Broken'',
       validate = (\<lambda>q. take 14 q = ''https://clips/''),
       handle = (\<lambda>q. Inl (Rejected ''offline'')) \<rparr>"

definition studio_player :: player where
  "studio_player =
     lounge_player\<lparr>extractors := [(''Silent'', silent_extractor), (''Clips'', clips_extractor)]\<rparr>"

definition broken_player :: player where
  "broken_player =
     lounge_player\<lparr>extractors := [(''Broken'', broken_extractor), (''Clips'', clips_extractor)]\<rparr>"

definition by_alice :: "QueryType option \<Rightarrow> SearchOptions" where
  "by_alice engine = \<lparr>requestedBy = ''alice'', searchEngine = engine\<rparr>"

section \<open>The extractor registry: first registration wins\<close>

lemma map_of_set_entry:
  "map_of (set_entry c k v) k' = (if k' = k then Some v else map_of c k')"
  by (induction c) auto

lemma map_of_delete:
  "map_of (delete c k) k' = (if k' = k then None else map_of c k')"
  unfolding delete_def by (induction c) auto

lemma use_keeps_empty_name_out:
  assumes "use c n e f = Inr (m, c')" and "map_of c [] = None"
  shows "map_of c' [] = None"
  using assms
  by (auto simp: use_def get_def has_def map_of_set_entry new_ExtractorModel_def Let_def
           split: if_splits option.splits extractor_arg.splits)

lemma unuse_keeps_empty_name_out:
  assumes "unuse c n = Inr (m, c')" and "map_of c [] = None"
  shows "map_of c' [] = None"
  using assms
  by (auto simp: unuse_def get_def map_of_delete split: option.splits)

text \<open>No registry has the empty name: \<^verbatim>\<open>use\<close> throws on it before it stores anything.\<close>

lemma registry_no_empty_name: "registry c \<Longrightarrow> map_of c [] = None"
  by (induction rule: registry.induct)
     (auto dest: use_keeps_empty_name_out unuse_keeps_empty_name_out)

text \<open>
  Claim C9. In a registry that holds model \<open>m\<close> under name \<open>n\<close>, \<^verbatim>\<open>use(n, e, false)\<close> returns
  \<open>m\<close> and leaves the registry as it is, whatever the second argument \<open>e\<close> is (another model, an
  object with or without the two methods, or nothing): the new resolver is not installed.
\<close>

theorem use_registered_name_is_noop:
  assumes "registry c" and "get c n = Some m"
  shows "use c n e False = Inr (m, c)"
proof -
  have "n \<noteq> []"
    using registry_no_empty_name [OF assms(1)] assms(2) by (auto simp: get_def)
  then show ?thesis
    using assms(2) by (simp add: use_def has_def get_def)
qed

theorem use_registered_name_is_noop_witness:
  "registry [(''Clips'', clips_extractor)]
   \<and> get [(''Clips'', clips_extractor)] ''Clips'' = Some clips_extractor
   \<and> use [(''Clips'', clips_extractor)] ''Clips'' (Instance silent_extractor) False
       = Inr (clips_extractor, [(''Clips'', clips_extractor)])"
proof -
  have "use [] ''Clips'' (Instance clips_extractor) False
          = Inr (clips_extractor, [(''Clips'', clips_extractor)])"
    by (simp add: use_def has_def get_def)
  then have r: "registry [(''Clips'', clips_extractor)]"
    using registry_empty by (rule registry_use [rotated])
  have g: "get [(''Clips'', clips_extractor)] ''Clips'' = Some clips_extractor"
    by (simp add: get_def)
  show ?thesis
    using r g use_registered_name_is_noop [OF r g, of "Instance silent_extractor"] by simp
qed

section \<open>The session registry\<close>

text \<open>
  Claim C8. When the guild reference resolves to a guild that has a session, \<^verbatim>\<open>createQueue\<close>
  returns that very session (the same reference) and the player's state is the one before the
  call: the registry is unchanged, and so is the heap, hence the session's configuration from
  the call that created it. The options of the second call (\<open>opts2\<close>, which may be missing) do
  not appear in the result.
\<close>

theorem createQueue_returns_existing:
  assumes "guilds_resolve p g = Some gid" and "queues p gid = Some r"
  shows "createQueue p g opts2 = Inr (r, p)"
  using assms by (simp add: createQueue_def)

theorem createQueue_returns_existing_witness:
  "createQueue idle_player ''g1'' (Some first_options) = Inr (0, opened_player)
   \<and> guilds_resolve opened_player ''g1'' = Some ''g1''
   \<and> queues opened_player ''g1'' = Some 0
   \<and> createQueue opened_player ''g1'' (Some second_options) = Inr (0, opened_player)
   \<and> createQueue opened_player ''g1'' None = Inr (0, opened_player)
   \<and> options (heap opened_player 0)
       = \<lparr>leaveOnEmpty = Some True, leaveOnEmptyCooldown = Some 60000, ytdlOptions = Some []\<rparr>
   \<and> queue_metadata (heap opened_player 0) = Some ''first''"
proof -
  have o: "createQueue idle_player ''g1'' (Some first_options) = Inr (0, opened_player)"
    by (simp add: opened_player_def createQueue_def idle_player_def lounge_player_def Let_def)
  have a: "guilds_resolve opened_player ''g1'' = Some ''g1''"
    by (simp add: opened_player_def createQueue_def idle_player_def lounge_player_def Let_def)
  have b: "queues opened_player ''g1'' = Some 0"
    by (simp add: opened_player_def createQueue_def idle_player_def lounge_player_def Let_def)
  have c: "options (heap opened_player 0)
       = \<lparr>leaveOnEmpty = Some True, leaveOnEmptyCooldown = Some 60000, ytdlOptions = Some []\<rparr>
     \<and> queue_metadata (heap opened_player 0) = Some ''first''"
    by (simp add: opened_player_def createQueue_def idle_player_def lounge_player_def Let_def
          first_options_def new_Queue_def PlayerOptions.defs)
  show ?thesis
    using o a b c createQueue_returns_existing [OF a b, of "Some second_options"]
      createQueue_returns_existing [OF a b, of None]
    by simp
qed

text \<open>
  Claim C10. When the guild reference resolves to a guild without a session, \<^verbatim>\<open>createQueue\<close>
  called without options throws the \<^verbatim>\<open>TypeError\<close> of reading \<^verbatim>\<open>metadata\<close> of \<^verbatim>\<open>undefined\<close>
  (line 108); called with an options object it registers a new session for the guild.
\<close>

theorem createQueue_without_options:
  assumes "guilds_resolve p g = Some gid" and "queues p gid = None"
  shows "createQueue p g None
           = Inl (TypeError ''Cannot read properties of undefined (reading metadata)'')
       \<and> (\<forall>init. \<exists>p'. createQueue p g (Some init) = Inr (next_ref p, p')
                     \<and> queues p' gid = Some (next_ref p)
                     \<and> guild (heap p' (next_ref p)) = gid)"
  using assms by (simp add: createQueue_def Let_def new_Queue_def split: option.splits)

theorem createQueue_without_options_witness:
  "guilds_resolve idle_player ''g1'' = Some ''g1''
   \<and> queues idle_player ''g1'' = None
   \<and> createQueue idle_player ''g1'' None
       = Inl (TypeError ''Cannot read properties of undefined (reading metadata)'')
   \<and> (\<forall>init. \<exists>p'. createQueue idle_player ''g1'' (Some init) = Inr (next_ref idle_player, p')
                     \<and> queues p' ''g1'' = Some (next_ref idle_player)
                     \<and> guild (heap p' (next_ref idle_player)) = ''g1'')"
proof -
  have a: "guilds_resolve idle_player ''g1'' = Some ''g1''"
    by (simp add: idle_player_def lounge_player_def)
  have b: "queues idle_player ''g1'' = None"
    by (simp add: idle_player_def)
  show ?thesis
    using a b createQueue_without_options [OF a b] by blast
qed

section \<open>The voice-state reactor\<close>

lemmas fixture_defs = lounge_queue_def lounge_player_def nobody_there_def somebody_there_def
  in_channel_def in_no_channel_def

lemmas reactor_defs = handleVoiceState_def getQueue_def member_left_def member_present_def
  setTimeout_def clearTimeout_def truthy_def emit_def Queue_destroy_def

lemma lounge_waiting_eq:
  "lounge_waiting =
     lounge_player
       \<lparr> heap := (heap lounge_player)
            (0 := lounge_queue\<lparr>cooldownsTimeout := [''empty_g1'' \<mapsto> 0]\<rparr>),
         timers := [\<lparr>timer_handle = 0, delay = 60000, captured_queue = 0\<rparr>],
         next_timer := 1 \<rparr>"
  by (simp add: lounge_waiting_def fixture_defs reactor_defs Let_def)

text \<open>
  Claim C4. The claim fails on the code. The last listener leaves the lounge and the reactor
  starts timer 0; then a member of the same guild leaves another channel while the lounge is
  still empty, and the reactor (lines 86 to 93) starts timer 1 without clearing timer 0: both
  are pending for guild \<open>g1\<close>, and the session's entry \<^verbatim>\<open>empty_g1\<close> holds timer 1 only. When
  a listener then joins the lounge, the reactor clears the timer of the entry (lines 81 to
  84), and timer 0 stays pending.
\<close>

theorem two_departures_stack_timers:
  "(case handle_events lounge_player
           [(nobody_there, in_channel ''alice'' ''lounge'', in_no_channel ''alice''),
            (nobody_there, in_channel ''bob'' ''hall'', in_no_channel ''bob'')] of
      Inl e \<Rightarrow> ([], None)
    | Inr p \<Rightarrow> (pending_cooldowns p ''g1'', cooldownsTimeout (heap p 0) ''empty_g1''))
     = ([0, 1], Some 1)
   \<and> (case handle_events lounge_player
           [(nobody_there, in_channel ''alice'' ''lounge'', in_no_channel ''alice''),
            (nobody_there, in_channel ''bob'' ''hall'', in_no_channel ''bob''),
            (somebody_there, in_no_channel ''carol'', in_channel ''carol'' ''lounge'')] of
      Inl e \<Rightarrow> []
    | Inr p \<Rightarrow> pending_cooldowns p ''g1'') = [0]"
  by (simp add: fixture_defs reactor_defs pending_cooldowns_def Let_def)

text \<open>
  Claim C7. When the reactor's lookup finds a session for the event's guild, the changed member
  is the bot and the new state has no channel, the reactor destroys the session and emits
  \<^verbatim>\<open>botDisconnect\<close> for it, and that is all it does: the pending timers and every session's
  cooldown entries are as before, and the occupancy of the channel is not consulted (the
  result is the same for every answer of \<^verbatim>\<open>isVoiceEmpty\<close>).
\<close>

theorem forced_disconnect:
  assumes "getQueue p (vs_guild_id oldState) = Inr (Some queue)"
      and "vs_member_id oldState = client_user_id p"
      and "\<not> truthy (vs_channelID newState)"
  shows "handleVoiceState isVoiceEmpty p oldState newState
           = Inr (emit (BotDisconnect queue) (Queue_destroy queue p))
       \<and> timers (emit (BotDisconnect queue) (Queue_destroy queue p)) = timers p
       \<and> (\<forall>r. cooldownsTimeout (heap (emit (BotDisconnect queue) (Queue_destroy queue p)) r)
               = cooldownsTimeout (heap p r))
       \<and> emitted (emit (BotDisconnect queue) (Queue_destroy queue p))
               = emitted p @ [BotDisconnect queue]
       \<and> destroyed (heap (emit (BotDisconnect queue) (Queue_destroy queue p)) queue)
       \<and> queues (emit (BotDisconnect queue) (Queue_destroy queue p)) (guild (heap p queue)) = None"
  using assms by (simp add: handleVoiceState_def emit_def Queue_destroy_def)

theorem forced_disconnect_witness:
  "getQueue lounge_waiting (vs_guild_id (in_channel ''bot'' ''lounge'')) = Inr (Some 0)
   \<and> vs_member_id (in_channel ''bot'' ''lounge'') = client_user_id lounge_waiting
   \<and> \<not> truthy (vs_channelID (in_no_channel ''bot''))
   \<and> pending_cooldowns lounge_waiting ''g1'' = [0]
   \<and> handleVoiceState nobody_there lounge_waiting (in_channel ''bot'' ''lounge'') (in_no_channel ''bot'')
       = Inr (emit (BotDisconnect 0) (Queue_destroy 0 lounge_waiting))
   \<and> timers (emit (BotDisconnect 0) (Queue_destroy 0 lounge_waiting)) = timers lounge_waiting"
proof -
  have a: "getQueue lounge_waiting (vs_guild_id (in_channel ''bot'' ''lounge'')) = Inr (Some 0)"
    by (simp add: lounge_waiting_eq getQueue_def fixture_defs)
  have b: "vs_member_id (in_channel ''bot'' ''lounge'') = client_user_id lounge_waiting"
    by (simp add: lounge_waiting_eq fixture_defs)
  have c: "\<not> truthy (vs_channelID (in_no_channel ''bot''))"
    by (simp add: truthy_def in_no_channel_def)
  have d: "pending_cooldowns lounge_waiting ''g1'' = [0]"
    by (simp add: lounge_waiting_eq pending_cooldowns_def fixture_defs)
  show ?thesis
    using a b c d forced_disconnect [OF a b c, of nobody_there] by simp
qed







lemma clearTimeout_heap [simp]: "heap (clearTimeout h p) = heap p"
  and clearTimeout_queues [simp]: "queues (clearTimeout h p) = queues p"
  and clearTimeout_emitted [simp]: "emitted (clearTimeout h p) = emitted p"
  by (simp_all add: clearTimeout_def)

lemma recheck_fails_clearTimeout [simp]:
  "recheck_fails isVoiceEmpty (clearTimeout h p) r = recheck_fails isVoiceEmpty p r"
  by (simp add: recheck_fails_def split: option.splits sum.splits)







section \<open>The resolution pipeline: registered extractors come first\<close>

lemma try_extractors_skip:
  assumes "list_all (\<lambda>x. \<not> yields x q \<and> \<not> rejects x q) pre"
  shows "try_extractors env user q (pre @ rest) =
           (map (\<lambda>x. Call_handle (name x) q) (filter (\<lambda>x. validate x q) pre)
              @ fst (try_extractors env user q rest),
            snd (try_extractors env user q rest))"
  using assms
proof (induction pre)
  case Nil
  then show ?case by simp
next
  case (Cons x pre)
  then show ?case
    by (auto simp: yields_def rejects_def split_def Let_def split: sum.splits option.splits)
qed

lemma try_extractors_yielding_head:
  assumes "yields e q" and "handle e q = Inr (Some d)"
  shows "try_extractors env user q (e # post) =
           ([Call_handle (name e) q], Inr (Some (extractor_result env user d)))"
  using assms by (simp add: yields_def)

lemma try_extractors_calls:
  "list_all (\<lambda>c. \<not> builtin_call c) (fst (try_extractors env user q exts))"
  by (induction exts)
     (auto simp: builtin_call_def split_def Let_def split: sum.splits option.splits)

lemma try_extractors_none_head:
  assumes "snd (try_extractors env user q (x # rest)) = Inr None"
  shows "\<not> yields x q \<and> snd (try_extractors env user q rest) = Inr None"
  using assms
  by (auto simp: yields_def split_def Let_def split: sum.splits option.splits if_splits)

lemma try_extractors_none:
  "snd (try_extractors env user q exts) = Inr None \<Longrightarrow> list_all (\<lambda>x. \<not> yields x q) exts"
proof (induction exts)
  case Nil
  then show ?case by simp
next
  case (Cons x rest)
  from try_extractors_none_head [OF Cons.prems] Cons.IH
  show ?case by simp
qed

lemma search_calls_of_extractors:
  assumes "snd (try_extractors env (users_resolve p (requestedBy opts)) q (map snd (extractors p))) \<noteq> Inr None"
  shows "fst (search env p (QueryString q) (Some opts))
           = fst (try_extractors env (users_resolve p (requestedBy opts)) q (map snd (extractors p)))"
  using assms
  by (auto simp: search_def Let_def split_def split: prod.splits sum.splits option.splits)

text \<open>
  Where no fetch rejects, the loop does what its order says. Let \<open>e\<close> be a registered extractor
  that yields for the query, and let no extractor registered before it yield or reject: then
  \<^verbatim>\<open>search\<close> calls \<^verbatim>\<open>handle\<close> of the extractors before \<open>e\<close> that accept the query, in registration
  order, then of \<open>e\<close>, and nothing else, and returns the result made of the data of \<open>e\<close>. And
  whenever \<^verbatim>\<open>search\<close> performs a fetch of a built-in handler, no registered extractor yields
  for the query.
\<close>

lemma extractors_come_first:
  "(\<forall>pre e post d.
       map snd (extractors p) = pre @ e # post
       \<and> list_all (\<lambda>x. \<not> yields x q \<and> \<not> rejects x q) pre
       \<and> yields e q \<and> handle e q = Inr (Some d)
       \<longrightarrow> search env p (QueryString q) (Some opts)
             = (map (\<lambda>x. Call_handle (name x) q) (filter (\<lambda>x. validate x q) pre)
                  @ [Call_handle (name e) q],
                Inr (extractor_result env (users_resolve p (requestedBy opts)) d)))
   \<and> (list_ex builtin_call (fst (search env p (QueryString q) (Some opts)))
        \<longrightarrow> list_all (\<lambda>x. \<not> yields x q) (map snd (extractors p)))"
proof (intro conjI allI impI)
  fix pre e post d
  assume h: "map snd (extractors p) = pre @ e # post
       \<and> list_all (\<lambda>x. \<not> yields x q \<and> \<not> rejects x q) pre
       \<and> yields e q \<and> handle e q = Inr (Some d)"
  let ?user = "users_resolve p (requestedBy opts)"
  have "try_extractors env ?user q (pre @ e # post)
          = (map (\<lambda>x. Call_handle (name x) q) (filter (\<lambda>x. validate x q) pre)
               @ [Call_handle (name e) q],
             Inr (Some (extractor_result env ?user d)))"
    using h try_extractors_skip [of q pre env ?user "e # post"]
      try_extractors_yielding_head [of e q d env ?user post]
    by simp
  then show "search env p (QueryString q) (Some opts)
             = (map (\<lambda>x. Call_handle (name x) q) (filter (\<lambda>x. validate x q) pre)
                  @ [Call_handle (name e) q],
                Inr (extractor_result env (users_resolve p (requestedBy opts)) d))"
    using h by (simp add: search_def)
next
  let ?user = "users_resolve p (requestedBy opts)"
  let ?t = "try_extractors env ?user q (map snd (extractors p))"
  assume b: "list_ex builtin_call (fst (search env p (QueryString q) (Some opts)))"
  have "snd ?t = Inr None"
  proof (rule ccontr)
    assume "snd ?t \<noteq> Inr None"
    then have "fst (search env p (QueryString q) (Some opts)) = fst ?t"
      by (rule search_calls_of_extractors)
    with b try_extractors_calls [of env ?user q "map snd (extractors p)"]
    show False by (auto simp: list_all_iff list_ex_iff)
  qed
  then show "list_all (\<lambda>x. \<not> yields x q) (map snd (extractors p))"
    by (rule try_extractors_none)
qed


text \<open>
  The result made of an extractor's data: one track for each item, in order, with the item's
  title and url, the formatted duration and the requester; a playlist exactly when the data
  has one, holding the same tracks.
\<close>

lemma extractor_result_fields:
  "map t_title (sr_tracks (extractor_result env user d)) = map (\<lambda>m. Some (x_title m)) (xd_data d)"
  "map t_url (sr_tracks (extractor_result env user d)) = map x_url (xd_data d)"
  "map t_duration (sr_tracks (extractor_result env user d))
     = map (\<lambda>m. formatted env (x_duration m)) (xd_data d)"
  "map t_requestedBy (sr_tracks (extractor_result env user d)) = map (\<lambda>m. user) (xd_data d)"
  "(sr_playlist (extractor_result env user d) = None) = (xd_playlist d = None)"
  "map_option p_tracks (sr_playlist (extractor_result env user d))
     = map_option (\<lambda>x. sr_tracks (extractor_result env user d)) (xd_playlist d)"
  by (simp_all add: extractor_result_def extractor_track_def Let_def comp_def
        option.map_comp split: option.splits)

lemmas studio_defs = studio_def studio_player_def broken_player_def lounge_player_def
  clips_extractor_def silent_extractor_def broken_extractor_def by_alice_def link_classifier_def

text \<open>
  Claim C1. The claim fails on the code. Two extractors accept the query: the one registered
  first rejects its fetch, the one registered second yields one result. The claim has the
  second one decide the outcome. But the rejection of \<^verbatim>\<open>handle\<close> (line 161) is not caught:
  \<^verbatim>\<open>search\<close> performs the one fetch, rejects with its error, and never asks the second
  extractor. With the first extractor silent instead, the second one is asked and its track
  is the result.
\<close>

theorem rejecting_extractor_ends_search:
  "map snd (extractors broken_player) = [broken_extractor, clips_extractor]
   \<and> rejects broken_extractor ''https://clips/1''
   \<and> yields clips_extractor ''https://clips/1''
   \<and> search studio broken_player (QueryString ''https://clips/1'') (Some (by_alice None))
       = ([Call_handle ''Broken'' ''https://clips/1''], Inl (Rejected ''offline''))
   \<and> map snd (extractors studio_player) = [silent_extractor, clips_extractor]
   \<and> fst (search studio studio_player (QueryString ''https://clips/1'') (Some (by_alice None)))
       = [Call_handle ''Silent'' ''https://clips/1'', Call_handle ''Clips'' ''https://clips/1'']
   \<and> (case snd (search studio studio_player (QueryString ''https://clips/1'') (Some (by_alice None))) of
         Inl e \<Rightarrow> []
       | Inr r \<Rightarrow> map t_url (sr_tracks r)) = [''https://clips/1'']"
  by (simp add: search_def studio_defs nullish_def yields_def rejects_def extractor_result_def
        extractor_track_def clip_def Let_def)
section \<open>The resolution pipeline: forced kinds and the classifier\<close>

lemma formatted_classifier [simp]:
  "formatted (env\<lparr>QueryResolver_resolve := c\<rparr>) = formatted env"
  by (simp add: formatted_def fun_eq_iff)

lemma extractor_track_classifier [simp]:
  "extractor_track (env\<lparr>QueryResolver_resolve := c\<rparr>) = extractor_track env"
  by (simp add: extractor_track_def fun_eq_iff)

lemma extractor_result_classifier [simp]:
  "extractor_result (env\<lparr>QueryResolver_resolve := c\<rparr>) = extractor_result env"
  by (simp add: extractor_result_def fun_eq_iff)

lemma try_extractors_classifier [simp]:
  "try_extractors (env\<lparr>QueryResolver_resolve := c\<rparr>) user q exts = try_extractors env user q exts"
  by (induction exts) (simp_all add: Let_def split_def split: sum.splits option.splits)

lemma handler_tracks_classifier [simp]:
  "spotify_album_track (env\<lparr>QueryResolver_resolve := c\<rparr>) = spotify_album_track env"
  "spotify_playlist_track (env\<lparr>QueryResolver_resolve := c\<rparr>) = spotify_playlist_track env"
  "soundcloud_playlist_track (env\<lparr>QueryResolver_resolve := c\<rparr>) = soundcloud_playlist_track env"
  by (simp_all add: spotify_album_track_def spotify_playlist_track_def
        soundcloud_playlist_track_def fun_eq_iff)

lemma dispatch_classifier:
  assumes "k \<noteq> SOUNDCLOUD_TRACK" and "k \<noteq> SOUNDCLOUD_SEARCH"
  shows "dispatch (env\<lparr>QueryResolver_resolve := c\<rparr>) user k q = dispatch env user k q"
  using assms
  by (cases k)
     (simp_all add: youtube_search_def spotify_song_def spotify_collection_def
        soundcloud_playlist_def youtube_playlist_def Let_def
        split: option.splits cong: if_cong)

lemma effective_kind_forced:
  assumes "searchEngine opts = Some k" and "k \<noteq> AUTO"
  shows "effective_kind env q opts = k"
  using assms by (simp add: effective_kind_def nullish_def)

lemma search_forced_kind:
  assumes "searchEngine opts = Some k" and "k \<noteq> AUTO"
  shows "search env p (QueryString q) (Some opts) =
           (case try_extractors env (users_resolve p (requestedBy opts)) q (map snd (extractors p)) of
              (calls, Inl e) \<Rightarrow> (calls, Inl e)
            | (calls, Inr (Some r)) \<Rightarrow> (calls, Inr r)
            | (calls, Inr None) \<Rightarrow>
                (calls @ fst (dispatch env (users_resolve p (requestedBy opts)) k q),
                 snd (dispatch env (users_resolve p (requestedBy opts)) k q)))"
  by (simp add: search_def effective_kind_forced [OF assms] Let_def split_def)

lemma soundcloud_songs_calls:
  "fst (soundcloud_songs env user rs) = map (\<lambda>r. Call_soundcloud_getSongInfo (r_url r)) rs"
  by (induction rs) (simp_all add: split_def Let_def split: option.splits)

text \<open>Every handler performs the fetches of its kind, and no other.\<close>

lemma dispatch_fetches: "fst (dispatch env user k q) = fetches_of_kind env k q"
proof (cases k)
  case SOUNDCLOUD_TRACK
  then show ?thesis
    by (auto simp: fetches_of_kind_def returned_def soundcloud_track_or_search_def
          soundcloud_songs_calls split_def Let_def nullish_def caught_def
          split: option.splits list.splits sum.splits)
next
  case SOUNDCLOUD_SEARCH
  then show ?thesis
    by (auto simp: fetches_of_kind_def returned_def soundcloud_track_or_search_def
          soundcloud_songs_calls split_def Let_def nullish_def caught_def
          split: option.splits list.splits sum.splits)
qed (simp_all add: fetches_of_kind_def returned_def youtube_search_def spotify_song_def
       spotify_collection_def soundcloud_playlist_def youtube_playlist_def Let_def
       split: option.splits)

text \<open>
  Claim C3, as the code has it. Let the options name a kind \<open>k\<close> other than \<^verbatim>\<open>auto\<close>. The kind
  of line 186 is \<open>k\<close>, and \<^verbatim>\<open>search\<close> is the loop over the extractors followed, when the loop
  gives no result, by the branch of the \<^verbatim>\<open>switch\<close> for \<open>k\<close>; the fetches it then performs after
  those of the extractors are the fetches of kind \<open>k\<close>. If \<open>k\<close> is neither of the two SoundCloud
  kinds of lines 211 and 212, the whole search is the same under every classifier: the text of
  the query is not classified. The handler the two SoundCloud kinds share does classify the
  query (line 213): it fetches the query itself as one song exactly when the classifier takes
  the query for a SoundCloud track, and otherwise starts with a SoundCloud search, whichever
  of the two kinds was asked for.
\<close>

theorem forced_kind_and_classifier:
  assumes "searchEngine opts = Some k" and "k \<noteq> AUTO"
  shows "effective_kind env q opts = k
       \<and> search env p (QueryString q) (Some opts) =
           (case try_extractors env (users_resolve p (requestedBy opts)) q (map snd (extractors p)) of
              (calls, Inl e) \<Rightarrow> (calls, Inl e)
            | (calls, Inr (Some r)) \<Rightarrow> (calls, Inr r)
            | (calls, Inr None) \<Rightarrow>
                (calls @ fst (dispatch env (users_resolve p (requestedBy opts)) k q),
                 snd (dispatch env (users_resolve p (requestedBy opts)) k q)))
       \<and> (snd (try_extractors env (users_resolve p (requestedBy opts)) q (map snd (extractors p)))
            = Inr None \<longrightarrow>
            fst (search env p (QueryString q) (Some opts))
              = fst (try_extractors env (users_resolve p (requestedBy opts)) q
                       (map snd (extractors p)))
                @ fetches_of_kind env k q)
       \<and> (k \<noteq> SOUNDCLOUD_TRACK \<and> k \<noteq> SOUNDCLOUD_SEARCH \<longrightarrow>
            (\<forall>c. search (env\<lparr>QueryResolver_resolve := c\<rparr>) p (QueryString q) (Some opts)
                   = search env p (QueryString q) (Some opts)))
       \<and> ((k = SOUNDCLOUD_TRACK \<or> k = SOUNDCLOUD_SEARCH)
            \<and> snd (try_extractors env (users_resolve p (requestedBy opts)) q (map snd (extractors p)))
                = Inr None \<longrightarrow>
            (if QueryResolver_resolve env q = SOUNDCLOUD_TRACK
             then fst (search env p (QueryString q) (Some opts))
                    = fst (try_extractors env (users_resolve p (requestedBy opts)) q
                             (map snd (extractors p)))
                      @ [Call_soundcloud_getSongInfo q]
             else \<exists>rest. fst (search env p (QueryString q) (Some opts))
                    = fst (try_extractors env (users_resolve p (requestedBy opts)) q
                             (map snd (extractors p)))
                      @ Call_soundcloud_search q # rest))"
proof -
  let ?user = "users_resolve p (requestedBy opts)"
  let ?t = "try_extractors env ?user q (map snd (extractors p))"
  note s = search_forced_kind [OF assms, of env p q]
  have a: "effective_kind env q opts = k"
    by (rule effective_kind_forced [OF assms])
  have f: "snd ?t = Inr None \<Longrightarrow>
      fst (search env p (QueryString q) (Some opts)) = fst ?t @ fetches_of_kind env k q"
    by (cases ?t) (simp add: s dispatch_fetches)
  have c: "k \<noteq> SOUNDCLOUD_TRACK \<and> k \<noteq> SOUNDCLOUD_SEARCH \<Longrightarrow>
      search (env\<lparr>QueryResolver_resolve := c\<rparr>) p (QueryString q) (Some opts)
        = search env p (QueryString q) (Some opts)" for c
    by (simp add: search_forced_kind [OF assms] dispatch_classifier
          split: prod.splits sum.splits option.splits)
  have d: "(k = SOUNDCLOUD_TRACK \<or> k = SOUNDCLOUD_SEARCH) \<and> snd ?t = Inr None \<Longrightarrow>
      (if QueryResolver_resolve env q = SOUNDCLOUD_TRACK
       then fst (search env p (QueryString q) (Some opts)) = fst ?t @ [Call_soundcloud_getSongInfo q]
       else \<exists>rest. fst (search env p (QueryString q) (Some opts))
                    = fst ?t @ Call_soundcloud_search q # rest)"
    using f by (auto simp: fetches_of_kind_def)
  show ?thesis
    using a s f c d by blast
qed

theorem forced_kind_and_classifier_witness:
  "searchEngine (by_alice (Some SOUNDCLOUD_TRACK)) = Some SOUNDCLOUD_TRACK
   \<and> snd (try_extractors studio
             (users_resolve studio_player (requestedBy (by_alice (Some SOUNDCLOUD_TRACK))))
             ''https://soundcloud.com/a/two'' (map snd (extractors studio_player))) = Inr None
   \<and> QueryResolver_resolve studio ''https://soundcloud.com/a/two'' = SOUNDCLOUD_TRACK
   \<and> fst (search studio studio_player (QueryString ''https://soundcloud.com/a/two'')
             (Some (by_alice (Some SOUNDCLOUD_TRACK))))
       = [Call_soundcloud_getSongInfo ''https://soundcloud.com/a/two'']
   \<and> searchEngine (by_alice (Some YOUTUBE_PLAYLIST)) = Some YOUTUBE_PLAYLIST
   \<and> fst (search studio studio_player (QueryString ''lofi beats'')
             (Some (by_alice (Some YOUTUBE_PLAYLIST))))
       = [Call_YouTube_getPlaylist ''lofi beats'', Call_ytpl_fetch]
   \<and> search (studio\<lparr>QueryResolver_resolve := (\<lambda>q. SOUNDCLOUD_TRACK)\<rparr>) studio_player
        (QueryString ''lofi beats'') (Some (by_alice (Some YOUTUBE_PLAYLIST)))
       = search studio studio_player (QueryString ''lofi beats'')
           (Some (by_alice (Some YOUTUBE_PLAYLIST)))"
proof -
  let ?q = "''https://soundcloud.com/a/two''"
  let ?t = "try_extractors studio
             (users_resolve studio_player (requestedBy (by_alice (Some SOUNDCLOUD_TRACK))))
             ?q (map snd (extractors studio_player))"
  let ?t2 = "try_extractors studio
             (users_resolve studio_player (requestedBy (by_alice (Some YOUTUBE_PLAYLIST))))
             ''lofi beats'' (map snd (extractors studio_player))"
  have a: "searchEngine (by_alice (Some SOUNDCLOUD_TRACK)) = Some SOUNDCLOUD_TRACK"
    by (simp add: by_alice_def)
  have b: "SOUNDCLOUD_TRACK \<noteq> AUTO" by simp
  have c: "?t = ([], Inr None)"
    by (simp add: studio_defs)
  have d: "QueryResolver_resolve studio ?q = SOUNDCLOUD_TRACK"
    by (simp add: studio_def link_classifier_def)
  note T = forced_kind_and_classifier [OF a b, of studio ?q studio_player]
  from T [THEN conjunct2, THEN conjunct2, THEN conjunct2, THEN conjunct2] c d
  have e: "fst (search studio studio_player (QueryString ?q) (Some (by_alice (Some SOUNDCLOUD_TRACK))))
             = fst ?t @ [Call_soundcloud_getSongInfo ?q]"
    by simp
  have f: "searchEngine (by_alice (Some YOUTUBE_PLAYLIST)) = Some YOUTUBE_PLAYLIST"
    by (simp add: by_alice_def)
  have g: "YOUTUBE_PLAYLIST \<noteq> AUTO" by simp
  have c2: "?t2 = ([], Inr None)"
    by (simp add: studio_defs)
  have k: "fetches_of_kind studio YOUTUBE_PLAYLIST ''lofi beats''
             = [Call_YouTube_getPlaylist ''lofi beats'', Call_ytpl_fetch]"
    by (simp add: fetches_of_kind_def studio_def caught_def)
  note U = forced_kind_and_classifier [OF f g, of studio "''lofi beats''" studio_player]
  from U [THEN conjunct2, THEN conjunct2, THEN conjunct1] c2
  have h: "fst (search studio studio_player (QueryString ''lofi beats'')
                  (Some (by_alice (Some YOUTUBE_PLAYLIST))))
             = fst ?t2 @ fetches_of_kind studio YOUTUBE_PLAYLIST ''lofi beats''"
    by simp
  from U [THEN conjunct2, THEN conjunct2, THEN conjunct2, THEN conjunct1]
  have i: "search (studio\<lparr>QueryResolver_resolve := (\<lambda>q. SOUNDCLOUD_TRACK)\<rparr>) studio_player
        (QueryString ''lofi beats'') (Some (by_alice (Some YOUTUBE_PLAYLIST)))
       = search studio studio_player (QueryString ''lofi beats'')
           (Some (by_alice (Some YOUTUBE_PLAYLIST)))"
    by simp
  show ?thesis
    using a c d e f i by (simp add: h c2 k)
qed

text \<open>
  The claim as first stated fails for the SoundCloud-track kind forced on text that is not a
  SoundCloud link: the handler runs a SoundCloud search for the text and fetches the songs
  found, and does not fetch the text as one song.
\<close>

theorem forced_soundcloud_track_counterexample:
  "QueryResolver_resolve studio ''lofi beats'' \<noteq> SOUNDCLOUD_TRACK
   \<and> fst (search studio studio_player (QueryString ''lofi beats'') (Some (by_alice (Some SOUNDCLOUD_TRACK))))
       = [Call_soundcloud_search ''lofi beats'',
          Call_soundcloud_getSongInfo ''https://soundcloud.com/a/one'',
          Call_soundcloud_getSongInfo ''https://soundcloud.com/a/two'']"
  by (simp add: search_def studio_defs nullish_def effective_kind_def returned_def
        soundcloud_track_or_search_def caught_def)
section \<open>The resolution pipeline: built-in handlers\<close>

lemma search_after_extractors:
  assumes "snd (try_extractors env (users_resolve p (requestedBy opts)) q (map snd (extractors p))) = Inr None"
  shows "search env p (QueryString q) (Some opts) =
           (fst (try_extractors env (users_resolve p (requestedBy opts)) q (map snd (extractors p)))
              @ fst (dispatch env (users_resolve p (requestedBy opts)) (effective_kind env q opts) q),
            snd (dispatch env (users_resolve p (requestedBy opts)) (effective_kind env q opts) q))"
  using assms
  by (cases "try_extractors env (users_resolve p (requestedBy opts)) q (map snd (extractors p))")
     (simp add: search_def Let_def split_def)











lemma extractor_durations:
  "(case snd (try_extractors env user q exts) of
      Inl e \<Rightarrow> Some []
    | Inr None \<Rightarrow> None
    | Inr (Some r) \<Rightarrow> Some (map t_duration (sr_tracks r)))
   = map_option (map (formatted env)) (extractor_ms q exts)"
proof (induction exts)
  case Nil
  then show ?case by simp
next
  case (Cons x rest)
  show ?case
  proof (cases "validate x q")
    case False
    with Cons show ?thesis by (simp add: yields_def rejects_def)
  next
    case True
    show ?thesis
    proof (cases "handle x q")
      case (Inl e)
      with True show ?thesis by (simp add: yields_def rejects_def)
    next
      case (Inr d)
      show ?thesis
      proof (cases d)
        case None
        with True Inr Cons show ?thesis
          by (simp add: yields_def rejects_def split_def Let_def)
      next
        case (Some data)
        with True Inr Cons show ?thesis
          by (simp add: yields_def rejects_def split_def extractor_result_def
                extractor_track_def Let_def comp_def)
      qed
    qed
  qed
qed

lemma extractor_calls_not_youtube:
  "\<not> list_ex youtube_call (fst (try_extractors env user q exts))"
  by (induction exts)
     (auto simp: youtube_call_def split_def Let_def split: sum.splits option.splits)

lemma soundcloud_songs_durations:
  "map t_duration (snd (soundcloud_songs env user rs))
     = map (formatted env)
         (map s_duration (List.map_filter (\<lambda>r. caught (soundcloud_getSongInfo env (r_url r))) rs))"
  by (induction rs)
     (auto simp: split_def Let_def map_filter_simps soundcloud_track_def split: option.splits)

lemma soundcloud_songs_calls_not_youtube:
  "\<not> list_ex youtube_call (fst (soundcloud_songs env user rs))"
  by (induction rs)
     (auto simp: youtube_call_def split_def Let_def split: option.splits)

lemma soundcloud_durations:
  "map t_duration (sr_tracks (snd (soundcloud_track_or_search env user q)))
     = map (formatted env) (soundcloud_ms env q)"
  by (auto simp: soundcloud_track_or_search_def soundcloud_ms_def soundcloud_songs_durations
        split_def Let_def nullish_def empty_result_def map_filter_simps soundcloud_track_def
        split: option.splits list.splits)

lemma soundcloud_calls_not_youtube:
  "\<not> list_ex youtube_call (fst (soundcloud_track_or_search env user q))"
  using soundcloud_songs_calls_not_youtube [of env user]
  by (auto simp: soundcloud_track_or_search_def split_def Let_def youtube_call_def
        split: option.splits list.splits)

lemma spotify_durations:
  "map t_duration (sr_tracks (snd (spotify_collection env user q)))
     = map (formatted env) (spotify_ms env q)"
  by (auto simp: spotify_collection_def spotify_ms_def spotify_album_track_def
        spotify_playlist_track_def Let_def empty_result_def comp_def split: option.splits)

lemma dispatch_durations:
  "(case snd (dispatch env user qt q) of Inl e \<Rightarrow> [] | Inr r \<Rightarrow> map t_duration (sr_tracks r))
     = (if qt = YOUTUBE_SEARCH \<or> qt = YOUTUBE_PLAYLIST then provider_formatted env qt q
        else map (formatted env) (handler_ms env qt q))"
proof (cases qt)
  case YOUTUBE_SEARCH
  then show ?thesis
    by (auto simp: youtube_search_def provider_formatted_def youtube_track_def empty_result_def
          returned_def comp_def split: option.splits)
next
  case YOUTUBE_PLAYLIST
  then show ?thesis
    by (auto simp: youtube_playlist_def provider_formatted_def youtube_playlist_track_def
          returned_def empty_result_def Let_def comp_def split: option.splits sum.splits)
next
  case SOUNDCLOUD_TRACK
  then show ?thesis by (simp add: soundcloud_durations handler_ms_def returned_def)
next
  case SOUNDCLOUD_SEARCH
  then show ?thesis by (simp add: soundcloud_durations handler_ms_def returned_def)
next
  case SPOTIFY_SONG
  then show ?thesis
    by (auto simp: spotify_song_def handler_ms_def empty_result_def returned_def
          split: option.splits)
next
  case SPOTIFY_PLAYLIST
  then show ?thesis by (simp add: spotify_durations handler_ms_def returned_def)
next
  case SPOTIFY_ALBUM
  then show ?thesis by (simp add: spotify_durations handler_ms_def returned_def)
next
  case SOUNDCLOUD_PLAYLIST
  then show ?thesis
    by (auto simp: soundcloud_playlist_def handler_ms_def soundcloud_playlist_track_def
          empty_result_def nullish_def Let_def comp_def split: option.splits)
next
  case AUTO
  then show ?thesis by (simp add: handler_ms_def empty_result_def)
next
  case (OTHER k)
  then show ?thesis by (simp add: handler_ms_def empty_result_def)
qed

lemma dispatch_youtube_calls:
  "list_ex youtube_call (fst (dispatch env user qt q)) = (qt = YOUTUBE_SEARCH \<or> qt = YOUTUBE_PLAYLIST)"
  using soundcloud_calls_not_youtube [of env user q]
  by (cases qt)
     (auto simp: youtube_search_def youtube_playlist_def spotify_song_def spotify_collection_def
        soundcloud_playlist_def youtube_call_def returned_def Let_def split: option.splits)

text \<open>
  Claim C2, as the code has it. The duration strings of the tracks of a search on a query
  string are, track by track: when no YouTube handler ran (the tracks come from an extractor,
  or from a SoundCloud or a Spotify handler), the formatter \<^verbatim>\<open>buildTimeCode(parseMS(ms))\<close> applied
  to the millisecond figures of the source items; when a YouTube handler ran, the strings
  \<^verbatim>\<open>durationFormatted\<close> that YouTube supplied with the videos (lines 204 and 396).
\<close>

theorem durations_by_handler:
  "durations_of (search env p (QueryString q) (Some opts))
     = (if list_ex youtube_call (fst (search env p (QueryString q) (Some opts)))
        then provider_formatted env (effective_kind env q opts) q
        else map (formatted env) (source_ms env p q opts))"
proof -
  let ?user = "users_resolve p (requestedBy opts)"
  let ?t = "try_extractors env ?user q (map snd (extractors p))"
  note ed = extractor_durations [of env ?user q "map snd (extractors p)"]
  note ec = extractor_calls_not_youtube [of env ?user q "map snd (extractors p)"]
  show ?thesis
  proof (cases "snd ?t = Inr None")
    case True
    then have ms: "extractor_ms q (map snd (extractors p)) = None"
      using ed by simp
    show ?thesis
      using ec
      by (simp add: search_after_extractors [OF True] durations_of_def dispatch_durations
            dispatch_youtube_calls source_ms_def ms)
  next
    case False
    then have s: "search env p (QueryString q) (Some opts)
        = (fst ?t, case snd ?t of Inl e \<Rightarrow> Inl e | Inr r \<Rightarrow> Inr (the r))"
      by (cases ?t) (auto simp: search_def Let_def split: sum.splits option.splits)
    from False ed obtain mss where ms: "extractor_ms q (map snd (extractors p)) = Some mss"
      by (cases "extractor_ms q (map snd (extractors p))") (auto split: sum.splits option.splits)
    show ?thesis
      using False ed ec
      by (auto simp: s durations_of_def source_ms_def ms split: sum.splits option.splits)
  qed
qed

theorem durations_by_handler_witness:
  "\<not> list_ex youtube_call
        (fst (search studio studio_player (QueryString ''lofi beats'')
                (Some (by_alice (Some SOUNDCLOUD_SEARCH)))))
   \<and> source_ms studio studio_player ''lofi beats'' (by_alice (Some SOUNDCLOUD_SEARCH)) = [3661000]
   \<and> durations_of (search studio studio_player (QueryString ''lofi beats'')
                     (Some (by_alice (Some SOUNDCLOUD_SEARCH))))
       = [formatted studio 3661000]
   \<and> formatted studio 3661000 = ''1:01:01''"
proof -
  have a: "\<not> list_ex youtube_call
        (fst (search studio studio_player (QueryString ''lofi beats'')
                (Some (by_alice (Some SOUNDCLOUD_SEARCH)))))"
    by (simp add: search_def studio_defs nullish_def effective_kind_def returned_def
          soundcloud_track_or_search_def caught_def youtube_call_def)
  have b: "source_ms studio studio_player ''lofi beats'' (by_alice (Some SOUNDCLOUD_SEARCH))
             = [3661000]"
    by (simp add: source_ms_def studio_defs yields_def rejects_def handler_ms_def
          effective_kind_def nullish_def soundcloud_ms_def caught_def map_filter_simps
          studio_song_def)
  have c: "formatted studio 3661000 = ''1:01:01''"
    by (simp add: formatted_def studio_def parseMS_def buildTimeCode_def two_digits_def
          decimal.simps)
  show ?thesis
    using a b c
      durations_by_handler [of studio studio_player "''lofi beats''" "by_alice (Some SOUNDCLOUD_SEARCH)"]
    by simp
qed

text \<open>
  The claim as first stated fails for the YouTube search handler: the track of a video of
  65000 ms that YouTube labels \<^verbatim>\<open>01:05\<close> has the duration \<^verbatim>\<open>01:05\<close>, and not the formatter's
  \<^verbatim>\<open>1:05\<close>.
\<close>

theorem youtube_duration_counterexample:
  "YouTube_search studio ''lofi beats'' = Inr (Some [studio_video])
   \<and> v_duration studio_video = 65000
   \<and> formatted studio 65000 = ''1:05''
   \<and> v_durationFormatted studio_video = ''01:05''
   \<and> durations_of (search studio studio_player (QueryString ''lofi beats'') (Some (by_alice None)))
       = [''01:05'']"
  by (simp add: search_def studio_defs nullish_def effective_kind_def returned_def
        youtube_search_def caught_def durations_of_def
        youtube_track_def studio_video_def formatted_def parseMS_def buildTimeCode_def
        two_digits_def decimal.simps)

end
